theory Spec2Isabelle
  imports
    Complex_Main
    "HOL-Library.Sublist"
    "HOL-Library.Char_ord"
    "HOL-Library.List_Lexorder"
    "HOL-Library.Word"
    "HOL-Library.AList"
begin

unbundle bit_operations_syntax

section \<open>Values and strings of the JavaScript runtime\<close>

text \<open>
  A JSON value as \<open>JSON.parse\<close> yields it. An object is the list of its own enumerable
  properties in enumeration order, each key once; a number is the rational it denotes.
  Strings are lists of characters with codes 0 to 255.
\<close>

datatype json =
    JNull
  | JBool bool
  | JNum rat
  | JStr string
  | JArr "json list"
  | JObj "(string \<times> json) list"

text \<open>JavaScript truthiness of a JSON value (\<open>if (v)\<close>, \<open>v && ...\<close>).\<close>

fun truthy :: "json \<Rightarrow> bool" where
  "truthy JNull = False"
| "truthy (JBool b) = b"
| "truthy (JNum n) = (n \<noteq> 0)"
| "truthy (JStr s) = (s \<noteq> [])"
| "truthy (JArr xs) = True"
| "truthy (JObj kvs) = True"

text \<open>\<open>typeof v === 'object'\<close>: objects, arrays and null.\<close>

fun typeofObject :: "json \<Rightarrow> bool" where
  "typeofObject JNull = True"
| "typeofObject (JArr xs) = True"
| "typeofObject (JObj kvs) = True"
| "typeofObject v = False"

text \<open>An optional string is falsy when it is undefined or empty (\<open>!s\<close>).\<close>

fun falsy :: "string option \<Rightarrow> bool" where
  "falsy None = True"
| "falsy (Some s) = (s = [])"

text \<open>An optional string read where undefined and the empty string count alike.\<close>

fun orEmpty :: "string option \<Rightarrow> string" where
  "orEmpty None = []"
| "orEmpty (Some s) = s"

text \<open>Decimal text of a non-negative integer, as a template literal prints an index.\<close>

fun showNat :: "nat \<Rightarrow> string" where
  "showNat n =
     (if n < 10 then [char_of (48 + n)]
      else showNat (n div 10) @ [char_of (48 + n mod 10)])"

declare showNat.simps [simp del]

definition showInt :: "int \<Rightarrow> string" where
  "showInt i = (if i < 0 then CHR ''-'' # showNat (nat (- i)) else showNat (nat i))"

text \<open>\<open>String.prototype.toLowerCase\<close> on the codes 0 to 255.\<close>

definition lowerChar :: "char \<Rightarrow> char" where
  "lowerChar c =
     (let n = (of_char c :: nat)
      in if (65 \<le> n \<and> n \<le> 90) \<or> (192 \<le> n \<and> n \<le> 222 \<and> n \<noteq> 215)
         then char_of (n + 32) else c)"

definition toLowerCase :: "string \<Rightarrow> string" where
  "toLowerCase s = map lowerChar s"

text \<open>\<open>s.includes(t)\<close>, \<open>s.startsWith(t)\<close>, \<open>s.endsWith(t)\<close>.\<close>

definition str_includes :: "string \<Rightarrow> string \<Rightarrow> bool" where
  "str_includes s t = sublist t s"

definition startsWith :: "string \<Rightarrow> string \<Rightarrow> bool" where
  "startsWith s t = prefix t s"

definition endsWith :: "string \<Rightarrow> string \<Rightarrow> bool" where
  "endsWith s t = suffix t s"

text \<open>\<open>s.split(sep)\<close> for a one-character separator.\<close>

fun splitOn :: "char \<Rightarrow> string \<Rightarrow> string list" where
  "splitOn sep [] = [[]]"
| "splitOn sep (c # cs) =
     (if c = sep then [] # splitOn sep cs
      else (case splitOn sep cs of
              [] \<Rightarrow> [[c]]
            | p # ps \<Rightarrow> (c # p) # ps))"

definition isWhiteSpace :: "char \<Rightarrow> bool" where
  "isWhiteSpace c = ((of_char c :: nat) \<in> {9, 10, 11, 12, 13, 32, 160})"

definition trim :: "string \<Rightarrow> string" where
  "trim s = rev (dropWhile isWhiteSpace (rev (dropWhile isWhiteSpace s)))"

text \<open>\<open>xs.join(sep)\<close>.\<close>

fun joinWith :: "string \<Rightarrow> string list \<Rightarrow> string" where
  "joinWith sep [] = []"
| "joinWith sep [x] = x"
| "joinWith sep (x # y # ys) = x @ sep @ joinWith sep (y # ys)"

section \<open>The process environment\<close>

text \<open>What goes over the wire to a downstream system, and what comes back.\<close>

record wire_request =
  w_url :: string
  w_method :: string
  w_headers :: "(string \<times> string) list"
  w_body :: "string option"
  w_timeout :: int

datatype outcome =
    Failed string
  | Answered int "(string \<times> string) list" string

type_synonym byte = "8 word"

record JobTreadQueryParams =
  pave :: json

record JobTreadPushJobToQboParams =
  jobId :: string

record MakeTriggerParams =
  webhookUrl :: string
  payload :: json

record envelope =
  e_action :: string
  e_mode :: string
  e_idempotencyKey :: string
  e_params :: json

text \<open>
  The environment of the process: the variables of \<open>process.env\<close>, and the libraries and
  runtime services the gateway calls, which are not part of the repository and are
  therefore parameters: Node's \<open>crypto\<close> HMAC, the WHATWG URL parser, number printing,
  \<open>JSON.stringify\<close> and \<open>JSON.parse\<close>, \<open>uuid\<close>, the clock and \<open>Date\<close>,
  \<open>localeCompare\<close>, the network behind \<open>undici\<close>, and the four validators Ajv compiles
  from the schema files. A validator yields Ajv's error list, or the validated value in
  the shape the TypeScript sources give it. The n-th call of \<open>undici.request\<close>, of the
  clock and of \<open>uuidv4\<close> is answered by the n-th value of the corresponding function.
\<close>

record env =
  HMAC_SECRET :: "string option"
  GATEWAY_KEY_DB :: "string option"
  GATEWAY_KEY_CI :: "string option"
  JT_GRANT_KEY_DB :: "string option"
  JT_GRANT_KEY_CI :: "string option"
  ALLOW_HOSTS :: "string option"
  LOG_RETENTION_DAYS :: "string option"
  hmacSha256 :: "string \<Rightarrow> string \<Rightarrow> byte list"
  urlHostname :: "string \<Rightarrow> string option"
  numberToString :: "rat \<Rightarrow> string"
  jsonStringify :: "json \<Rightarrow> string"
  jsonParse :: "string \<Rightarrow> json option"
  uuidv4 :: "nat \<Rightarrow> string"
  clock :: "nat \<Rightarrow> int"
  toISOString :: "int \<Rightarrow> string"
  isoDaysBefore :: "int \<Rightarrow> int \<Rightarrow> string option"
  localeCompare :: "string \<Rightarrow> string \<Rightarrow> int"
  network :: "nat \<Rightarrow> wire_request \<Rightarrow> outcome"
  validateEnvelope :: "json \<Rightarrow> json list + envelope"
  validateJobTreadQuery :: "json \<Rightarrow> json list + JobTreadQueryParams"
  validateJobTreadPushJobToQbo :: "json \<Rightarrow> json list + JobTreadPushJobToQboParams"
  validateMakeTrigger :: "json \<Rightarrow> json list + MakeTriggerParams"

section \<open>lib/allowlist.ts\<close>

text \<open>The loop over the allowed hosts: the first of the three tests that holds accepts.\<close>

fun hostLoop :: "string \<Rightarrow> string list \<Rightarrow> bool" where
  "hostLoop hostname [] = False"
| "hostLoop hostname (allowedHost # rest) =
     (if hostname = allowedHost then True
      else if endsWith hostname (''.'' @ allowedHost) then True
      else if endsWith allowedHost (''.'' @ hostname) then True
      else hostLoop hostname rest)"

definition allowedHosts :: "string \<Rightarrow> string list" where
  "allowedHosts allowHosts = map trim (splitOn CHR '','' allowHosts)"

definition isHostAllowed :: "env \<Rightarrow> string \<Rightarrow> string + bool" where
  "isHostAllowed E url =
     (case ALLOW_HOSTS E of
        None \<Rightarrow> Inl ''ALLOW_HOSTS environment variable not configured''
      | Some allowHosts \<Rightarrow>
          if allowHosts = [] then Inl ''ALLOW_HOSTS environment variable not configured''
          else (case urlHostname E url of
                  None \<Rightarrow> Inr False
                | Some hostname \<Rightarrow> Inr (hostLoop hostname (allowedHosts allowHosts))))"

section \<open>lib/auth.ts\<close>

text \<open>
  \<open>Buffer.from(s, 'hex')\<close>: Node reads two hex digits per byte, in either letter case, and
  stops at the first pair that is not two hex digits or at a single trailing character;
  it does not throw.
\<close>

definition hexVal :: "char \<Rightarrow> nat option" where
  "hexVal c =
     (let n = (of_char c :: nat)
      in if 48 \<le> n \<and> n \<le> 57 then Some (n - 48)
         else if 97 \<le> n \<and> n \<le> 102 then Some (n - 87)
         else if 65 \<le> n \<and> n \<le> 70 then Some (n - 55)
         else None)"

fun hexDecode :: "string \<Rightarrow> byte list" where
  "hexDecode (a # b # rest) =
     (case hexVal a of
        None \<Rightarrow> []
      | Some x \<Rightarrow>
          (case hexVal b of
             None \<Rightarrow> []
           | Some y \<Rightarrow> word_of_nat (16 * x + y) # hexDecode rest))"
| "hexDecode s = []"

text \<open>\<open>digest('hex')\<close>: two lower-case hex digits per byte.\<close>

definition hexDigit :: "nat \<Rightarrow> char" where
  "hexDigit n = ''0123456789abcdef'' ! n"

fun hexEncode :: "byte list \<Rightarrow> string" where
  "hexEncode [] = []"
| "hexEncode (w # ws) = hexDigit (unat w div 16) # hexDigit (unat w mod 16) # hexEncode ws"

definition timingSafeEqual :: "byte list \<Rightarrow> byte list \<Rightarrow> bool" where
  "timingSafeEqual a b = (a = b)"

definition verifyHmacSignature :: "env \<Rightarrow> string \<Rightarrow> string \<Rightarrow> string \<Rightarrow> bool" where
  "verifyHmacSignature E body signature secret =
     (if signature = [] \<or> \<not> startsWith signature ''sha256='' then False
      else
        let providedSignature = drop 7 signature;
            expectedSignature = hexEncode (hmacSha256 E secret body);
            providedBuffer = hexDecode providedSignature;
            expectedBuffer = hexDecode expectedSignature
        in if length providedBuffer \<noteq> length expectedBuffer then False
           else timingSafeEqual providedBuffer expectedBuffer)"

datatype brand = DB | CI

fun brandName :: "brand \<Rightarrow> string" where
  "brandName DB = ''DB''"
| "brandName CI = ''CI''"

text \<open>The result is an error (the function throws), no brand (\<open>null\<close>) or a brand.\<close>

definition getBrandFromGatewayKey :: "env \<Rightarrow> string \<Rightarrow> string + brand option" where
  "getBrandFromGatewayKey E k =
     (if falsy (GATEWAY_KEY_DB E) \<or> falsy (GATEWAY_KEY_CI E)
      then Inl ''Gateway keys not configured in environment variables''
      else if Some k = GATEWAY_KEY_DB E then Inr (Some DB)
      else if Some k = GATEWAY_KEY_CI E then Inr (Some CI)
      else Inr None)"

definition getGrantKeyForBrand :: "env \<Rightarrow> brand \<Rightarrow> string + string" where
  "getGrantKeyForBrand E b =
     (case (if b = DB then JT_GRANT_KEY_DB E else JT_GRANT_KEY_CI E) of
        None \<Rightarrow> Inl (''JobTread grant key not configured for brand: '' @ brandName b)
      | Some grantKey \<Rightarrow>
          if grantKey = []
          then Inl (''JobTread grant key not configured for brand: '' @ brandName b)
          else Inr grantKey)"

section \<open>lib/logs.ts\<close>

datatype log_status = Success | Error | Warning

text \<open>
  A log entry. A TypeScript interface is structural: an object passed as a \<open>LogEntry\<close>
  has the declared properties and may own further ones, which \<open>extra\<close> holds
  (\<open>lnotes\<close> is the property \<open>notes\<close>).
\<close>

record LogEntry =
  timestamp :: string
  traceId :: string
  brand :: brand
  action :: string
  mode :: string
  status :: log_status
  duration :: int
  lnotes :: "string list"
  error :: "string option"
  extra :: "(string \<times> json) list"

record LogFilters =
  f_traceId :: "string option"
  f_brand :: "brand option"
  f_action :: "string option"
  f_status :: "log_status option"

definition createTraceId :: "env \<Rightarrow> nat \<Rightarrow> string" where
  "createTraceId E n = uuidv4 E n"

text \<open>\<open>parseInt(s, 10)\<close>: leading white space, a sign, then digits up to the first
  character that is no digit; \<open>None\<close> is NaN.\<close>

definition digitVal :: "char \<Rightarrow> nat option" where
  "digitVal c =
     (let n = (of_char c :: nat) in if 48 \<le> n \<and> n \<le> 57 then Some (n - 48) else None)"

fun parseDigits :: "nat option \<Rightarrow> string \<Rightarrow> nat option" where
  "parseDigits acc [] = acc"
| "parseDigits acc (c # cs) =
     (case digitVal c of
        None \<Rightarrow> acc
      | Some d \<Rightarrow> parseDigits (Some (10 * (case acc of None \<Rightarrow> 0 | Some a \<Rightarrow> a) + d)) cs)"

definition parseInt :: "string \<Rightarrow> int option" where
  "parseInt s =
     (case dropWhile isWhiteSpace s of
        [] \<Rightarrow> None
      | c # cs \<Rightarrow>
          if c = CHR ''-'' then map_option (\<lambda>n. - int n) (parseDigits None cs)
          else if c = CHR ''+'' then map_option int (parseDigits None cs)
          else map_option int (parseDigits None (c # cs)))"

text \<open>\<open>logs.splice(i, 1)\<close>.\<close>

definition splice1 :: "'a list \<Rightarrow> nat \<Rightarrow> 'a list" where
  "splice1 xs i = take i xs @ drop (Suc i) xs"

text \<open>The \<open>while (i < logs.length)\<close> loop of \<open>addLog\<close>; \<open><\<close> on strings compares
  character codes lexicographically, as JavaScript does.\<close>

function pruneFrom :: "string \<Rightarrow> nat \<Rightarrow> LogEntry list \<Rightarrow> LogEntry list" where
  "pruneFrom cutoffTimestamp i logs =
     (if i < length logs
      then (if timestamp (logs ! i) < cutoffTimestamp
            then pruneFrom cutoffTimestamp i (splice1 logs i)
            else pruneFrom cutoffTimestamp (i + 1) logs)
      else logs)"
  by pat_completeness auto
termination
  by (relation "measure (\<lambda>(c, i, logs). 2 * length logs - i)")
     (auto simp: splice1_def)

declare pruneFrom.simps [simp del]

text \<open>
  \<open>addLog\<close> at the time \<open>now\<close> that its \<open>new Date()\<close> reads. The entry is pushed first.
  \<open>toISOString\<close> throws a RangeError on an invalid date: when \<open>parseInt\<close> yields NaN, or
  when the date falls out of the range of \<open>Date\<close>. The result is the error thrown, if
  any, and the stored list.
\<close>

definition retentionDays :: "env \<Rightarrow> int option" where
  "retentionDays E =
     parseInt (case LOG_RETENTION_DAYS E of
                 None \<Rightarrow> ''60''
               | Some s \<Rightarrow> if s = [] then ''60'' else s)"

definition addLog :: "env \<Rightarrow> int \<Rightarrow> LogEntry \<Rightarrow> LogEntry list \<Rightarrow> string option \<times> LogEntry list" where
  "addLog E now entry logs =
     (let logs1 = logs @ [entry]
      in case retentionDays E of
           None \<Rightarrow> (Some ''Invalid time value'', logs1)
         | Some days \<Rightarrow>
             (case isoDaysBefore E now days of
                None \<Rightarrow> (Some ''Invalid time value'', logs1)
              | Some cutoffTimestamp \<Rightarrow> (None, pruneFrom cutoffTimestamp 0 logs1)))"

text \<open>\<open>Array.prototype.sort\<close> with a comparator: a stable sort, here by insertion.\<close>

fun insertBy :: "('a \<Rightarrow> 'a \<Rightarrow> int) \<Rightarrow> 'a \<Rightarrow> 'a list \<Rightarrow> 'a list" where
  "insertBy cmp x [] = [x]"
| "insertBy cmp x (y # ys) = (if cmp x y \<le> 0 then x # y # ys else y # insertBy cmp x ys)"

definition sortBy :: "('a \<Rightarrow> 'a \<Rightarrow> int) \<Rightarrow> 'a list \<Rightarrow> 'a list" where
  "sortBy cmp xs = foldr (insertBy cmp) xs []"

definition getLogs :: "env \<Rightarrow> LogFilters option \<Rightarrow> LogEntry list \<Rightarrow> LogEntry list" where
  "getLogs E filters logs =
     (let filteredLogs =
        (case filters of
           None \<Rightarrow> logs
         | Some f \<Rightarrow>
             (let l1 = (if falsy (f_traceId f) then logs
                        else filter (\<lambda>log. Some (traceId log) = f_traceId f) logs);
                  l2 = (case f_brand f of
                          None \<Rightarrow> l1
                        | Some b \<Rightarrow> filter (\<lambda>log. brand log = b) l1);
                  l3 = (if falsy (f_action f) then l2
                        else filter (\<lambda>log. Some (action log) = f_action f) l2);
                  l4 = (case f_status f of
                          None \<Rightarrow> l3
                        | Some s \<Rightarrow> filter (\<lambda>log. status log = s) l3)
              in l4))
      in sortBy (\<lambda>a b. localeCompare E (timestamp b) (timestamp a)) filteredLogs)"

definition sensitiveKeys :: "string list" where
  "sensitiveKeys = [''grantkey'', ''password'', ''secret'', ''token'', ''key'', ''authorization'']"

definition isSensitive :: "string \<Rightarrow> bool" where
  "isSensitive k = list_ex (\<lambda>sensitiveKey. str_includes (toLowerCase k) sensitiveKey) sensitiveKeys"

definition MASKED :: json where
  "MASKED = JStr ''***MASKED***''"

text \<open>
  \<open>maskSecrets\<close> builds a new object by the assignments \<open>masked[key] = ...\<close>, one for each
  entry. The assignment to the key \<open>__proto__\<close> goes to the accessor of \<open>Object.prototype\<close>
  and makes no own property: that entry is not in the result.
\<close>

function maskSecrets :: "json \<Rightarrow> json" where
  "maskSecrets (JArr xs) = JArr (map maskSecrets xs)"
| "maskSecrets (JObj kvs) =
     JObj (map (\<lambda>(k, v).
                  (k, if isSensitive k then MASKED
                      else if truthy v \<and> typeofObject v then maskSecrets v
                      else v))
               (filter (\<lambda>(k, v). k \<noteq> ''__proto__'') kvs))"
| "maskSecrets JNull = JNull"
| "maskSecrets (JBool b) = JBool b"
| "maskSecrets (JNum n) = JNum n"
| "maskSecrets (JStr s) = JStr s"
  by pat_completeness auto
termination
proof (relation "measure size")
  show "wf (measure size)" by simp
next
  fix xs :: "json list" and x
  assume "x \<in> set xs"
  then show "(x, JArr xs) \<in> measure size"
    by (induction xs) auto
next
  fix kvs :: "(string \<times> json) list" and kv k v
  assume "kv \<in> set (filter (\<lambda>(k, v). k \<noteq> ''__proto__'') kvs)" "(k, v) = kv"
  then have "(k, v) \<in> set kvs" by auto
  then have "size v < Suc (size_list (size_prod (\<lambda>x. 0) size) kvs)"
    by (induction kvs) auto
  then show "(v, JObj kvs) \<in> measure size" by simp
qed

text \<open>The entry as the admin endpoint serialises it.\<close>

fun statusName :: "log_status \<Rightarrow> string" where
  "statusName Success = ''success''"
| "statusName Error = ''error''"
| "statusName Warning = ''warning''"

definition entryJson :: "LogEntry \<Rightarrow> json" where
  "entryJson e =
     JObj ([(''timestamp'', JStr (timestamp e)), (''traceId'', JStr (traceId e)),
            (''brand'', JStr (brandName (brand e))), (''action'', JStr (action e)),
            (''mode'', JStr (mode e)), (''status'', JStr (statusName (status e))),
            (''duration'', JNum (of_int (duration e))),
            (''notes'', JArr (map JStr (lnotes e)))] @
           (case error e of None \<Rightarrow> [] | Some m \<Rightarrow> [(''error'', JStr m)]) @
           extra e)"

section \<open>lib/lint.ts\<close>

record LintResult =
  valid :: bool
  lint_notes :: "string list"
  errors :: "string list"

text \<open>
  A computation that may throw: the message of the error thrown, or the value. \<open>andThen\<close>
  runs the next statement on the value unless the first has thrown.
\<close>

definition andThen :: "string + 'a \<Rightarrow> ('a \<Rightarrow> string + 'b) \<Rightarrow> string + 'b" where
  "andThen r f = (case r of Inl e \<Rightarrow> Inl e | Inr x \<Rightarrow> f x)"

text \<open>
  \<open>obj.hasOwnProperty(k)\<close> is a method call on an object parsed from JSON: the property
  \<open>hasOwnProperty\<close> is looked up on the object itself first, so an own property of that
  name shadows the method of \<open>Object.prototype\<close>. Its value is a JSON value, never a
  function, and the call throws the TypeError whose message is \<open>notAFunction\<close>.
\<close>

definition notAFunction :: string where
  "notAFunction = ''obj.hasOwnProperty is not a function''"

definition hasOwnProperty :: "(string \<times> json) list \<Rightarrow> string \<Rightarrow> string + bool" where
  "hasOwnProperty kvs k =
     (case map_of kvs ''hasOwnProperty'' of
        Some f \<Rightarrow> Inl notAFunction
      | None \<Rightarrow> Inr (map_of kvs k \<noteq> None))"

text \<open>The three rules \<open>checkObject\<close> applies to one object at \<open>path\<close>: the errors and the
  notes they push, in order, unless a call of \<open>hasOwnProperty\<close> throws. The second operand
  of \<open>&&\<close> is evaluated only when the first is true. \<open>fmt\<close> prints a number in a template
  literal.\<close>

definition emailError :: "string \<Rightarrow> string" where
  "emailError path =
     ''contacts.nodes.email is not supported due to tenant schema limitations. '' @
     ''Use contacts.edges.node.email instead. Found at: '' @ path @ ''.email''"

definition sizeError :: "(rat \<Rightarrow> string) \<Rightarrow> string \<Rightarrow> rat \<Rightarrow> string" where
  "sizeError fmt path n =
     ''Page size limit exceeded: '' @ path @ ''.size = '' @ fmt n @ ''. '' @
     ''Maximum allowed is 100. Please use pagination for larger result sets.''"

definition unitPriceNote :: "string \<Rightarrow> string" where
  "unitPriceNote path =
     ''unitPrice used at '' @ path @ '' without unitCost. '' @
     ''Consider using unitCost as it is the authoritative source for pricing data.''"

definition objectRules ::
  "(rat \<Rightarrow> string) \<Rightarrow> (string \<times> json) list \<Rightarrow> string \<Rightarrow> string + string list \<times> string list" where
  "objectRules fmt kvs path =
     andThen (if str_includes path ''contacts.nodes'' then hasOwnProperty kvs ''email''
              else Inr False) (\<lambda>email.
     andThen (hasOwnProperty kvs ''size'') (\<lambda>hasSize.
     andThen (hasOwnProperty kvs ''unitPrice'') (\<lambda>unitPrice.
     andThen (if unitPrice then hasOwnProperty kvs ''unitCost'' else Inr False) (\<lambda>unitCost.
       Inr ((if email then [emailError path] else []) @
            (if hasSize
             then (case map_of kvs ''size'' of
                     Some (JNum n) \<Rightarrow> if n > 100 then [sizeError fmt path n] else []
                   | _ \<Rightarrow> [])
             else []),
            (if unitPrice \<and> \<not> unitCost then [unitPriceNote path] else []))))))"

definition both :: "string list \<times> string list \<Rightarrow> string list \<times> string list \<Rightarrow> string list \<times> string list" where
  "both a b = (fst a @ fst b, snd a @ snd b)"

text \<open>One part of the traversal after another: what the two push, in order, unless one
  of them throws; the first error thrown is the one that propagates.\<close>

definition thenBoth ::
  "string + string list \<times> string list \<Rightarrow> string + string list \<times> string list
     \<Rightarrow> string + string list \<times> string list" where
  "thenBoth a b = andThen a (\<lambda>x. andThen b (\<lambda>y. Inr (both x y)))"

definition newPath :: "string \<Rightarrow> string \<Rightarrow> string" where
  "newPath path k = (if path \<noteq> [] then path @ ''.'' @ k else k)"

text \<open>
  \<open>checkObject\<close> and its loops. \<open>checkEntries\<close> is the loop over \<open>Object.entries\<close> of an
  object, \<open>checkIndexed\<close> the same loop over an array (its entries are its indices), and
  \<open>checkItems\<close> the \<open>forEach\<close> over an array value. An array owns its indices and its
  length only: on it the three rules find no property and call the method of
  \<open>Object.prototype\<close>, which does not throw.
\<close>

function checkObject :: "(rat \<Rightarrow> string) \<Rightarrow> json \<Rightarrow> string \<Rightarrow> string + string list \<times> string list"
  and checkEntries :: "(rat \<Rightarrow> string) \<Rightarrow> (string \<times> json) list \<Rightarrow> string \<Rightarrow> string + string list \<times> string list"
  and checkIndexed :: "(rat \<Rightarrow> string) \<Rightarrow> json list \<Rightarrow> nat \<Rightarrow> string \<Rightarrow> string + string list \<times> string list"
  and checkItems :: "(rat \<Rightarrow> string) \<Rightarrow> json list \<Rightarrow> nat \<Rightarrow> string \<Rightarrow> string + string list \<times> string list"
where
  "checkObject fmt (JObj kvs) path = thenBoth (objectRules fmt kvs path) (checkEntries fmt kvs path)"
| "checkObject fmt (JArr xs) path = checkIndexed fmt xs 0 path"
| "checkObject fmt JNull path = Inr ([], [])"
| "checkObject fmt (JBool b) path = Inr ([], [])"
| "checkObject fmt (JNum n) path = Inr ([], [])"
| "checkObject fmt (JStr s) path = Inr ([], [])"
| "checkEntries fmt [] path = Inr ([], [])"
| "checkEntries fmt ((k, v) # rest) path =
     thenBoth (case v of
                 JArr items \<Rightarrow> checkItems fmt items 0 (newPath path k)
               | JObj kvs \<Rightarrow> checkObject fmt v (newPath path k)
               | _ \<Rightarrow> Inr ([], []))
              (checkEntries fmt rest path)"
| "checkIndexed fmt [] i path = Inr ([], [])"
| "checkIndexed fmt (v # rest) i path =
     thenBoth (case v of
                 JArr items \<Rightarrow> checkItems fmt items 0 (newPath path (showNat i))
               | JObj kvs \<Rightarrow> checkObject fmt v (newPath path (showNat i))
               | _ \<Rightarrow> Inr ([], []))
              (checkIndexed fmt rest (i + 1) path)"
| "checkItems fmt [] i path = Inr ([], [])"
| "checkItems fmt (item # rest) i path =
     thenBoth (checkObject fmt item (path @ ''['' @ showNat i @ '']''))
              (checkItems fmt rest (i + 1) path)"
  by pat_completeness auto
termination
  by (relation "measure (\<lambda>x. case x of
          Inl (Inl (fmt, v, path)) \<Rightarrow> size v
        | Inl (Inr (fmt, kvs, path)) \<Rightarrow> size_list (size_prod (\<lambda>x. 0) size) kvs
        | Inr (Inl (fmt, xs, i, path)) \<Rightarrow> size_list size xs
        | Inr (Inr (fmt, xs, i, path)) \<Rightarrow> size_list size xs)")
     auto

text \<open>\<open>lintJobTreadQuery\<close> returns its result unless the traversal throws.\<close>

definition lintJobTreadQuery :: "(rat \<Rightarrow> string) \<Rightarrow> json \<Rightarrow> string + LintResult" where
  "lintJobTreadQuery fmt pv =
     andThen (checkObject fmt pv [])
       (\<lambda>r. Inr \<lparr>valid = (fst r = []), lint_notes = snd r, errors = fst r\<rparr>)"

section \<open>lib/http.ts\<close>

record HttpRequestOptions =
  o_url :: string
  o_method :: string
  o_headers :: "(string \<times> string) list option"
  o_body :: "json option"
  o_timeout :: "int option"
  o_maxRetries :: "int option"

record HttpResponse =
  r_status :: int
  r_headers :: "(string \<times> string) list"
  r_data :: json

text \<open>
  What the process has done to the outside and read from it: the requests sent
  downstream, the back-off delays slept (in milliseconds), the number of trace
  identifiers minted and of clock readings taken.
\<close>

record world =
  sent :: "wire_request list"
  slept :: "nat list"
  minted :: nat
  ticks :: nat

text \<open>The request one attempt puts on the wire: the same at every attempt.\<close>

definition wireRequest :: "env \<Rightarrow> HttpRequestOptions \<Rightarrow> wire_request" where
  "wireRequest E opts =
     (let headers = (case o_headers opts of None \<Rightarrow> [] | Some h \<Rightarrow> h);
          timeout = (case o_timeout opts of None \<Rightarrow> 20000 | Some t \<Rightarrow> t);
          prepared =
            (case o_body opts of
               None \<Rightarrow> (None, headers)
             | Some b \<Rightarrow>
                 if \<not> truthy b then (None, headers)
                 else (case b of
                         JStr s \<Rightarrow> (Some s, headers)
                       | _ \<Rightarrow>
                           (Some (jsonStringify E b),
                            if falsy (map_of headers ''content-type'')
                            then AList.update ''content-type'' ''application/json'' headers
                            else headers)))
      in \<lparr>w_url = o_url opts, w_method = o_method opts, w_headers = snd prepared,
          w_body = fst prepared, w_timeout = timeout\<rparr>)"

text \<open>The response text parsed as JSON when it parses, else the raw text.\<close>

definition parseData :: "env \<Rightarrow> string \<Rightarrow> json" where
  "parseData E responseText =
     (if responseText = [] then JNull
      else (case jsonParse E responseText of
              Some d \<Rightarrow> d
            | None \<Rightarrow> JStr responseText))"

definition maxRetriesOf :: "HttpRequestOptions \<Rightarrow> int" where
  "maxRetriesOf opts = (case o_maxRetries opts of None \<Rightarrow> 2 | Some m \<Rightarrow> m)"

text \<open>
  The \<open>while (attempt <= maxRetries)\<close> loop. An attempt either returns the response,
  whatever its status, or fails with an error: then \<open>attempt\<close> is incremented and the loop
  throws when it exceeds \<open>maxRetries\<close>, and sleeps and goes on otherwise.
\<close>

function httpLoop ::
  "env \<Rightarrow> HttpRequestOptions \<Rightarrow> int \<Rightarrow> string option \<Rightarrow> world \<Rightarrow> (string + HttpResponse) \<times> world" where
  "httpLoop E opts attempt lastError w =
     (if attempt \<le> maxRetriesOf opts
      then
        (let rq = wireRequest E opts;
             w1 = w\<lparr>sent := sent w @ [rq]\<rparr>
         in case network E (length (sent w)) rq of
              Answered st hs responseText \<Rightarrow>
                (Inr \<lparr>r_status = st, r_headers = hs, r_data = parseData E responseText\<rparr>, w1)
            | Failed msg \<Rightarrow>
                (let attempt1 = attempt + 1
                 in if attempt1 > maxRetriesOf opts
                    then (Inl (''HTTP request failed after '' @ showInt (maxRetriesOf opts + 1) @
                               '' attempts: '' @ msg), w1)
                    else httpLoop E opts attempt1 (Some msg)
                           (w1\<lparr>slept := slept w1 @ [2 ^ nat (attempt1 - 1) * 1000]\<rparr>)))
      else (Inl (case lastError of Some msg \<Rightarrow> msg | None \<Rightarrow> ''HTTP request failed''), w))"
  by pat_completeness auto
termination
  by (relation "measure (\<lambda>(E, opts, attempt, lastError, w). nat (maxRetriesOf opts + 1 - attempt))")
     auto

declare httpLoop.simps [simp del]

definition httpRequest :: "env \<Rightarrow> HttpRequestOptions \<Rightarrow> world \<Rightarrow> (string + HttpResponse) \<times> world" where
  "httpRequest E opts w = httpLoop E opts 0 None w"

section \<open>The action executors\<close>

definition readClock :: "env \<Rightarrow> world \<Rightarrow> int \<times> world" where
  "readClock E w = (clock E (ticks w), w\<lparr>ticks := Suc (ticks w)\<rparr>)"

text \<open>actions/echo.ts, at the time \<open>now\<close> that its \<open>new Date()\<close> reads.\<close>

definition executeEcho :: "env \<Rightarrow> json \<Rightarrow> string \<Rightarrow> int \<Rightarrow> json" where
  "executeEcho E ps tid now =
     JObj [(''echo'', ps), (''traceId'', JStr tid), (''timestamp'', JStr (toISOString E now))]"

text \<open>The own enumerable properties an object spread copies, and the spread itself:
  a later property replaces an earlier one of the same name and keeps its place, a new
  one comes last. An object enumerates its array indices first, in ascending order
  (the canonical decimal strings below \<open>2^32 - 1\<close>), then its other keys in the order
  of their creation.\<close>

definition decimal :: "string \<Rightarrow> int" where
  "decimal k = foldl (\<lambda>a c. 10 * a + (of_char c - 48)) 0 k"

definition isArrayIndex :: "string \<Rightarrow> bool" where
  "isArrayIndex k =
     (k \<noteq> [] \<and> list_all (\<lambda>c. digitVal c \<noteq> None) k \<and> (k = ''0'' \<or> hd k \<noteq> CHR ''0'')
      \<and> decimal k < 4294967295)"

definition enumerationOrder :: "(string \<times> json) list \<Rightarrow> (string \<times> json) list" where
  "enumerationOrder kvs =
     sort_key (\<lambda>kv. decimal (fst kv)) (filter (\<lambda>kv. isArrayIndex (fst kv)) kvs) @
     filter (\<lambda>kv. \<not> isArrayIndex (fst kv)) kvs"

definition ownEntries :: "json \<Rightarrow> (string \<times> json) list" where
  "ownEntries v =
     (case v of
        JObj kvs \<Rightarrow> kvs
      | JArr xs \<Rightarrow> zip (map showNat [0..<length xs]) xs
      | JStr cs \<Rightarrow> zip (map showNat [0..<length cs]) (map (\<lambda>c. JStr [c]) cs)
      | _ \<Rightarrow> [])"

definition spreadInto :: "(string \<times> json) list \<Rightarrow> json \<Rightarrow> (string \<times> json) list" where
  "spreadInto base v =
     enumerationOrder (foldl (\<lambda>acc kv. AList.update (fst kv) (snd kv) acc) base (ownEntries v))"

text \<open>The object \<open>$\<close> of a Pave body; \<open>JSON.stringify\<close> leaves an undefined grant key out.\<close>

definition grantObject :: "string option \<Rightarrow> json" where
  "grantObject grantKey =
     JObj ((case grantKey of None \<Rightarrow> [] | Some g \<Rightarrow> [(''grantKey'', JStr g)]) @
           [(''timeZone'', JStr ''America/Chicago'')])"

definition paveOptions :: "json \<Rightarrow> HttpRequestOptions" where
  "paveOptions paveBody =
     \<lparr>o_url = ''https://api.jobtread.com/pave'', o_method = ''POST'',
      o_headers = Some [(''content-type'', ''application/json'')],
      o_body = Some paveBody, o_timeout = Some 20000, o_maxRetries = Some 2\<rparr>"

text \<open>The Pave bodies the two JobTread executors build: of the query, the wrapper with
  the caller's \<open>pave\<close> spread into it; of the push, the mutation of the job.\<close>

definition queryPaveBody :: "string option \<Rightarrow> json \<Rightarrow> json" where
  "queryPaveBody grantKey pv =
     JObj (spreadInto [(''version'', JObj []),
                       (''$'', grantObject grantKey),
                       (''currentGrant'', JObj [(''_type'', JObj []), (''id'', JObj [])])]
                      pv)"

definition pushPaveBody :: "string option \<Rightarrow> string \<Rightarrow> json" where
  "pushPaveBody grantKey job =
     JObj [(''version'', JObj []),
           (''$'', grantObject grantKey),
           (''currentGrant'', JObj [(''_type'', JObj []), (''id'', JObj [])]),
           (''pushJobToQbo'',
              JObj [(''_type'', JObj []),
                    (''$'', JObj [(''id'', JStr job)]),
                    (''job'', JObj [(''_type'', JObj []),
                                    (''$'', JObj [(''id'', JStr job)]),
                                    (''id'', JObj []),
                                    (''qboId'', JObj [])])])]"

text \<open>actions/jobtread.query.ts. An executor yields the error it throws, or its result
  and notes. The lint runs outside the block in which the executor catches and rewords
  errors: what the lint throws propagates as it is.\<close>

definition executeJobTreadQuery ::
  "env \<Rightarrow> JobTreadQueryParams \<Rightarrow> brand \<Rightarrow> string option \<Rightarrow> string \<Rightarrow> world
     \<Rightarrow> (string + json \<times> string list) \<times> world" where
  "executeJobTreadQuery E ps b grantKey md w =
     (case lintJobTreadQuery (numberToString E) (pave ps) of
        Inl thrown \<Rightarrow> (Inl thrown, w)
      | Inr lint \<Rightarrow>
          if \<not> valid lint
          then (Inl (''JobTread query validation failed:'' @ [CHR 0x0A] @
                     joinWith [CHR 0x0A] (errors lint)), w)
          else if md = ''dry_run''
          then (Inr (JStr ''Dry run: Query validated successfully. Would execute against JobTread API.'',
                     lint_notes lint), w)
          else
            (case httpRequest E (paveOptions (queryPaveBody grantKey (pave ps))) w of
               (Inl errorMessage, w') \<Rightarrow> (Inl (''JobTread query failed: '' @ errorMessage), w')
             | (Inr response, w') \<Rightarrow> (Inr (r_data response, lint_notes lint), w')))"

text \<open>actions/jobtread.pushJobToQbo.ts.\<close>

definition executeJobTreadPushJobToQbo ::
  "env \<Rightarrow> JobTreadPushJobToQboParams \<Rightarrow> brand \<Rightarrow> string option \<Rightarrow> string \<Rightarrow> world
     \<Rightarrow> (string + json \<times> string list) \<times> world" where
  "executeJobTreadPushJobToQbo E ps b grantKey md w =
     (if md = ''dry_run''
      then (Inr (JStr (''Dry run: Would push job '' @ jobId ps @
                       '' to QuickBooks Online via JobTread API.''),
                 [''This is a side-effect action - idempotency is enforced by the server'']), w)
      else
        (case httpRequest E (paveOptions (pushPaveBody grantKey (jobId ps))) w of
           (Inl errorMessage, w') \<Rightarrow>
             (Inl (''Failed to push job to QuickBooks: '' @ errorMessage), w')
         | (Inr response, w') \<Rightarrow>
             (Inr (r_data response,
                   [''Job '' @ jobId ps @ '' pushed to QuickBooks Online successfully'']), w')))"

text \<open>actions/make.trigger.ts.\<close>

definition executeMakeTrigger ::
  "env \<Rightarrow> MakeTriggerParams \<Rightarrow> string \<Rightarrow> world \<Rightarrow> (string + json \<times> string list) \<times> world" where
  "executeMakeTrigger E ps md w =
     (case isHostAllowed E (webhookUrl ps) of
        Inl e \<Rightarrow> (Inl e, w)
      | Inr allowed \<Rightarrow>
          if \<not> allowed
          then (Inl (''Webhook URL host not allowed: '' @ webhookUrl ps @ ''. '' @
                     ''Host must be in ALLOW_HOSTS environment variable.''), w)
          else if md = ''dry_run''
          then (Inr (JStr (''Dry run: Would POST payload to Make.com webhook: '' @ webhookUrl ps),
                     [''Webhook URL validated against ALLOW_HOSTS'']), w)
          else
            (case httpRequest E
                    \<lparr>o_url = webhookUrl ps, o_method = ''POST'',
                     o_headers = Some [(''content-type'', ''application/json'')],
                     o_body = Some (payload ps), o_timeout = Some 20000,
                     o_maxRetries = Some 2\<rparr> w of
               (Inl errorMessage, w') \<Rightarrow>
                 (Inl (''Failed to trigger Make.com webhook: '' @ errorMessage), w')
             | (Inr response, w') \<Rightarrow>
                 (Inr (r_data response, [''Make.com webhook triggered successfully'']), w')))"

section \<open>server.ts: the endpoint /v1/actions/execute\<close>

text \<open>The request as Fastify hands it to the handler: the raw body kept by the content
  parser, the body it parsed, and the two headers read.\<close>

record request =
  rawBody :: "string option"
  body :: json
  x_gateway_key :: "string option"
  x_signature :: "string option"

text \<open>
  The state of the process: the idempotency cache, the stored log entries, and the world.
  \<open>runs\<close> is an observation, not a variable of the program: the actions whose executor
  has been invoked, in order.
\<close>

record state =
  idempotencyCache :: "string \<rightharpoonup> json"
  logs :: "LogEntry list"
  runs :: "string list"
  io :: world

text \<open>What the handler does: it returns a body under a status code (200 unless
  \<open>reply.code\<close> was called), or an exception escapes it.\<close>

datatype reply = Replied nat json | Escaped string

definition errorBody :: "string \<Rightarrow> json" where
  "errorBody msg = JObj [(''ok'', JBool False), (''error'', JStr msg)]"

definition errorDetails :: "string \<Rightarrow> json list \<Rightarrow> json" where
  "errorDetails msg errs = JObj [(''ok'', JBool False), (''error'', JStr msg), (''details'', JArr errs)]"

definition successBody :: "string \<Rightarrow> json \<Rightarrow> string list \<Rightarrow> json" where
  "successBody tid res ns =
     JObj [(''ok'', JBool True), (''traceId'', JStr tid), (''result'', res),
           (''notes'', JArr (map JStr ns))]"

definition failureBody :: "string \<Rightarrow> string \<Rightarrow> json" where
  "failureBody tid msg = JObj [(''ok'', JBool False), (''traceId'', JStr tid), (''error'', JStr msg)]"

text \<open>
  The \<open>catch\<close> block, entered with the locals as they stand where the error was thrown:
  \<open>traceId\<close>, \<open>brand\<close>, \<open>action\<close> and \<open>mode\<close> are undefined until assigned.
\<close>

definition onError ::
  "env \<Rightarrow> int \<Rightarrow> string option \<Rightarrow> brand option \<Rightarrow> string option \<Rightarrow> string option \<Rightarrow> string
     \<Rightarrow> state \<Rightarrow> reply \<times> state" where
  "onError E startTime tidOpt brandOpt actionOpt modeOpt errorMessage s =
     (let (t1, w1) = readClock E (io s);
          dur = t1 - startTime;
          (tid, w2) =
            (case tidOpt of
               Some t \<Rightarrow> if t = [] then (createTraceId E (minted w1), w1\<lparr>minted := Suc (minted w1)\<rparr>)
                         else (t, w1)
             | None \<Rightarrow> (createTraceId E (minted w1), w1\<lparr>minted := Suc (minted w1)\<rparr>))
      in case brandOpt of
           None \<Rightarrow> (Replied 500 (failureBody tid errorMessage), s\<lparr>io := w2\<rparr>)
         | Some b \<Rightarrow>
             if falsy actionOpt \<or> falsy modeOpt
             then (Replied 500 (failureBody tid errorMessage), s\<lparr>io := w2\<rparr>)
             else
               (let (t2, w3) = readClock E w2;
                    (t3, w4) = readClock E w3;
                    (thrown, logs') =
                      addLog E t3
                        \<lparr>timestamp = toISOString E t2, traceId = tid, brand = b,
                         action = (case actionOpt of Some a \<Rightarrow> a | None \<Rightarrow> []),
                         mode = (case modeOpt of Some m \<Rightarrow> m | None \<Rightarrow> []),
                         status = Error, duration = dur, lnotes = [],
                         error = Some errorMessage, extra = []\<rparr>
                        (logs s)
                in case thrown of
                     Some e \<Rightarrow> (Escaped e, s\<lparr>logs := logs', io := w4\<rparr>)
                   | None \<Rightarrow>
                       (Replied 500 (failureBody tid errorMessage), s\<lparr>logs := logs', io := w4\<rparr>)))"

text \<open>Steps 9, 11 and 12: the log entry, the cache, the response.\<close>

definition finish ::
  "env \<Rightarrow> int \<Rightarrow> brand \<Rightarrow> string \<Rightarrow> string \<Rightarrow> string \<Rightarrow> string \<Rightarrow> json \<Rightarrow> string list
     \<Rightarrow> state \<Rightarrow> reply \<times> state" where
  "finish E startTime b tid act md idempotencyKey res ns s =
     (let (t1, w1) = readClock E (io s);
          dur = t1 - startTime;
          (t2, w2) = readClock E w1;
          (t3, w3) = readClock E w2;
          (thrown, logs') =
            addLog E t3
              \<lparr>timestamp = toISOString E t2, traceId = tid, brand = b, action = act, mode = md,
               status = Success, duration = dur, lnotes = ns, error = None, extra = []\<rparr>
              (logs s);
          s1 = s\<lparr>logs := logs', io := w3\<rparr>
      in case thrown of
           Some e \<Rightarrow> onError E startTime (Some tid) (Some b) (Some act) (Some md) e s1
         | None \<Rightarrow>
             (let response = successBody tid res ns
              in (Replied 200 response,
                  if md = ''execute''
                  then s1\<lparr>idempotencyCache := (idempotencyCache s1)(idempotencyKey \<mapsto> response)\<rparr>
                  else s1)))"

text \<open>The validated parameters of the four actions, and the first \<open>switch (action)\<close>.\<close>

datatype action_params =
    EchoParams json
  | QueryParams JobTreadQueryParams
  | PushParams JobTreadPushJobToQboParams
  | TriggerParams MakeTriggerParams

datatype params_check = UnknownAction | InvalidParams "json list" | ValidParams action_params

definition validateParams :: "env \<Rightarrow> string \<Rightarrow> json \<Rightarrow> params_check" where
  "validateParams E act ps =
     (if act = ''echo'' then ValidParams (EchoParams ps)
      else if act = ''jobtread.query''
      then (case validateJobTreadQuery E ps of
              Inl errs \<Rightarrow> InvalidParams errs
            | Inr q \<Rightarrow> ValidParams (QueryParams q))
      else if act = ''jobtread.pushJobToQbo''
      then (case validateJobTreadPushJobToQbo E ps of
              Inl errs \<Rightarrow> InvalidParams errs
            | Inr q \<Rightarrow> ValidParams (PushParams q))
      else if act = ''make.trigger''
      then (case validateMakeTrigger E ps of
              Inl errs \<Rightarrow> InvalidParams errs
            | Inr q \<Rightarrow> ValidParams (TriggerParams q))
      else UnknownAction)"

text \<open>The second \<open>switch (action)\<close>: the executor of the action.\<close>

definition dispatch ::
  "env \<Rightarrow> action_params \<Rightarrow> string \<Rightarrow> brand \<Rightarrow> string option \<Rightarrow> string \<Rightarrow> world
     \<Rightarrow> (string + json \<times> string list) \<times> world" where
  "dispatch E p tid b grantKey md w =
     (case p of
        EchoParams ps \<Rightarrow>
          (let (now, w') = readClock E w in (Inr (executeEcho E ps tid now, []), w'))
      | QueryParams q \<Rightarrow> executeJobTreadQuery E q b grantKey md w
      | PushParams q \<Rightarrow> executeJobTreadPushJobToQbo E q b grantKey md w
      | TriggerParams q \<Rightarrow> executeMakeTrigger E q md w)"

text \<open>Steps 8 and 10: the grant key of the brand for a \<open>jobtread.\<close> action, then the
  executor.\<close>

definition runAction ::
  "env \<Rightarrow> int \<Rightarrow> brand \<Rightarrow> string \<Rightarrow> string \<Rightarrow> string \<Rightarrow> string \<Rightarrow> action_params
     \<Rightarrow> state \<Rightarrow> reply \<times> state" where
  "runAction E startTime b tid act md idempotencyKey p s =
     (case (if startsWith act ''jobtread.''
            then map_sum id Some (getGrantKeyForBrand E b) else Inr None) of
        Inl e \<Rightarrow> onError E startTime (Some tid) (Some b) (Some act) (Some md) e s
      | Inr grantKey \<Rightarrow>
          (case dispatch E p tid b grantKey md (io s) of
             (Inl e, w') \<Rightarrow>
               onError E startTime (Some tid) (Some b) (Some act) (Some md) e
                 (s\<lparr>runs := runs s @ [act], io := w'\<rparr>)
           | (Inr (res, ns), w') \<Rightarrow>
               finish E startTime b tid act md idempotencyKey res ns
                 (s\<lparr>runs := runs s @ [act], io := w'\<rparr>)))"

text \<open>Steps 5 to 7: the trace identifier, the parameters, the idempotency cache.\<close>

definition idempotencyKeyOf :: "string \<Rightarrow> brand \<Rightarrow> string \<Rightarrow> string" where
  "idempotencyKeyOf act b k = act @ '':'' @ brandName b @ '':'' @ k"

definition validateAndRun :: "env \<Rightarrow> int \<Rightarrow> brand \<Rightarrow> envelope \<Rightarrow> state \<Rightarrow> reply \<times> state" where
  "validateAndRun E startTime b ev s =
     (let tid = createTraceId E (minted (io s));
          s1 = s\<lparr>io := (io s)\<lparr>minted := Suc (minted (io s))\<rparr>\<rparr>;
          act = e_action ev;
          md = e_mode ev
      in case validateParams E act (e_params ev) of
           UnknownAction \<Rightarrow> (Replied 422 (errorBody (''Unknown action: '' @ act)), s1)
         | InvalidParams errs \<Rightarrow>
             (Replied 422 (errorDetails ''Invalid parameters for action'' errs), s1)
         | ValidParams p \<Rightarrow>
             (let idempotencyKey = idempotencyKeyOf act b (e_idempotencyKey ev)
              in case (if md = ''execute'' then idempotencyCache s1 idempotencyKey else None) of
                   Some cachedResult \<Rightarrow> (Replied 200 cachedResult, s1)
                 | None \<Rightarrow> runAction E startTime b tid act md idempotencyKey p s1))"

text \<open>Steps 1 to 4: body and headers, the signature, the brand, the envelope.\<close>

definition handler :: "env \<Rightarrow> request \<Rightarrow> state \<Rightarrow> reply \<times> state" where
  "handler E rq s =
     (let (startTime, w0) = readClock E (io s);
          s0 = s\<lparr>io := w0\<rparr>;
          raw = orEmpty (rawBody rq);
          gatewayKey = orEmpty (x_gateway_key rq);
          signature = orEmpty (x_signature rq);
          hmacSecret = orEmpty (HMAC_SECRET E)
      in if raw = [] then (Replied 400 (errorBody ''Request body is required''), s0)
         else if gatewayKey = []
         then (Replied 401 (errorBody ''x-gateway-key header is required''), s0)
         else if signature = []
         then (Replied 401 (errorBody ''X-Signature header is required''), s0)
         else if hmacSecret = []
         then onError E startTime None None None None ''HMAC_SECRET not configured'' s0
         else if \<not> verifyHmacSignature E raw signature hmacSecret
         then (Replied 401 (errorBody ''Invalid HMAC signature''), s0)
         else (case getBrandFromGatewayKey E gatewayKey of
                 Inl e \<Rightarrow> onError E startTime None None None None e s0
               | Inr None \<Rightarrow> (Replied 401 (errorBody ''Invalid gateway key''), s0)
               | Inr (Some b) \<Rightarrow>
                   (case validateEnvelope E (body rq) of
                      Inl errs \<Rightarrow> (Replied 422 (errorDetails ''Invalid request format'' errs), s0)
                    | Inr ev \<Rightarrow> validateAndRun E startTime b ev s0)))"

section \<open>A sample deployment\<close>

text \<open>
  One concrete environment, on which the model is run at concrete requests. Its
  configuration is that of a deployment with the secret \<open>key\<close>; its library functions
  are simple stand-ins that agree with the real ones on the inputs used.
\<close>

text \<open>HMAC-SHA256 under the secret \<open>key\<close> of the bodies below, as Node computes them
  (the first is the well-known test vector); any other input gets zero bytes.\<close>

definition foxBody :: string where
  "foxBody = ''The quick brown fox jumps over the lazy dog''"

definition echoBody :: string where
  "echoBody = ''{\"action\":\"echo\",\"mode\":\"dry_run\",\"idempotencyKey\":\"k1\",\"params\":{\"msg\":\"hi\"}}''"

definition pushBody :: string where
  "pushBody = ''{\"action\":\"jobtread.pushJobToQbo\",\"mode\":\"execute\",\"idempotencyKey\":\"k1\",\"params\":{\"jobId\":\"12345\"}}''"

definition pushBadBody :: string where
  "pushBadBody = ''{\"action\":\"jobtread.pushJobToQbo\",\"mode\":\"execute\",\"idempotencyKey\":\"k1\",\"params\":{}}''"

definition pushDryBody :: string where
  "pushDryBody = ''{\"action\":\"jobtread.pushJobToQbo\",\"mode\":\"dry_run\",\"idempotencyKey\":\"k1\",\"params\":{\"jobId\":\"12345\"}}''"

definition queryBody :: string where
  "queryBody = ''{\"action\":\"jobtread.query\",\"mode\":\"dry_run\",\"idempotencyKey\":\"q1\",\"params\":{\"pave\":{\"jobs\":{\"size\":150}}}}''"

definition shadowBody :: string where
  "shadowBody = ''{\"action\":\"jobtread.query\",\"mode\":\"dry_run\",\"idempotencyKey\":\"q2\",\"params\":{\"pave\":{\"jobs\":{\"hasOwnProperty\":1,\"size\":150}}}}''"

definition sampleHmac :: "string \<Rightarrow> string \<Rightarrow> byte list" where
  "sampleHmac secret text =
     (if secret \<noteq> ''key'' then replicate 32 0
      else if text = foxBody
      then hexDecode ''f7bc83f430538424b13298e6aa6fb143ef4d59a14946175997479dbc2d1a3cd8''
      else if text = echoBody
      then hexDecode ''1400398f4e3774f32a8884dcd211f369b76ea9a4f43e8be5066d6e572016b4bf''
      else if text = pushBody
      then hexDecode ''be1ecfa27a359b34a77282b2b12ed6fb492fd25c1830af9bd22d141255f281ed''
      else if text = pushBadBody
      then hexDecode ''e2468e892d769d011074fd452e60ae67baf944907a9f14f47ed1a57fafad8edf''
      else if text = pushDryBody
      then hexDecode ''7a0cf068b90aaf1c4ce7fce3fa92a1189295cce543808e50247013e943a892b0''
      else if text = queryBody
      then hexDecode ''13b13d68794f521c9d6de5b2a393a49bc475af9853d2cb1705f1320a872ce94a''
      else if text = shadowBody
      then hexDecode ''252038bbee2bc515cc82f75f02b600ac0888e7c06f1d8dc484734b944a9681f5''
      else replicate 32 0)"

text \<open>The host of a URL of the shape \<open>scheme://host/path\<close>.\<close>

fun afterScheme :: "string \<Rightarrow> string option" where
  "afterScheme (a # b # c # rest) =
     (if [a, b, c] = ''://'' then Some rest else afterScheme (b # c # rest))"
| "afterScheme s = None"

definition sampleHostname :: "string \<Rightarrow> string option" where
  "sampleHostname u =
     (case afterScheme u of
        None \<Rightarrow> None
      | Some r \<Rightarrow>
          (let h = takeWhile (\<lambda>c. c \<notin> set ''/?#:'') r
           in if h = [] then None else Some h))"

text \<open>An integer prints as JavaScript prints it; a fraction as a quotient.\<close>

definition sampleNumber :: "rat \<Rightarrow> string" where
  "sampleNumber r =
     (let q = quotient_of r
      in if snd q = 1 then showInt (fst q) else showInt (fst q) @ ''/'' @ showInt (snd q))"

text \<open>Compact JSON text, for strings that need no escape.\<close>

definition quoted :: "string \<Rightarrow> string" where
  "quoted s = [CHR 0x22] @ s @ [CHR 0x22]"

function sampleStringify :: "json \<Rightarrow> string" where
  "sampleStringify JNull = ''null''"
| "sampleStringify (JBool b) = (if b then ''true'' else ''false'')"
| "sampleStringify (JNum n) = sampleNumber n"
| "sampleStringify (JStr s) = quoted s"
| "sampleStringify (JArr xs) = ''['' @ joinWith '','' (map sampleStringify xs) @ '']''"
| "sampleStringify (JObj kvs) =
     ''{'' @ joinWith '','' (map (\<lambda>(k, v). quoted k @ '':'' @ sampleStringify v) kvs) @ ''}''"
  by pat_completeness auto
termination
proof (relation "measure size")
  show "wf (measure size)" by simp
next
  fix xs :: "json list" and x
  assume "x \<in> set xs"
  then show "(x, JArr xs) \<in> measure size"
    by (induction xs) auto
next
  fix kvs :: "(string \<times> json) list" and kv k v
  assume "kv \<in> set kvs" "(k, v) = kv"
  then have "(k, v) \<in> set kvs" by simp
  then have "size v < Suc (size_list (size_prod (\<lambda>x. 0) size) kvs)"
    by (induction kvs) auto
  then show "(v, JObj kvs) \<in> measure size" by simp
qed

text \<open>The one response text the sample parser reads as JSON.\<close>

definition sampleParse :: "string \<Rightarrow> json option" where
  "sampleParse t = (if t = ''{\"ok\":true}'' then Some (JObj [(''ok'', JBool True)]) else None)"

text \<open>\<open>toISOString\<close> in UTC for the years 0000 to 9999, from milliseconds since the epoch.\<close>

definition pad :: "nat \<Rightarrow> int \<Rightarrow> string" where
  "pad width n = replicate (width - length (showNat (nat n))) CHR ''0'' @ showNat (nat n)"

definition sampleISO :: "int \<Rightarrow> string" where
  "sampleISO ms =
     (let days = ms div 86400000;
          r = ms mod 86400000;
          z = days + 719468;
          era = z div 146097;
          doe = z - era * 146097;
          yoe = (doe - doe div 1460 + doe div 36524 - doe div 146096) div 365;
          doy = doe - (365 * yoe + yoe div 4 - yoe div 100);
          mp = (5 * doy + 2) div 153;
          d = doy - (153 * mp + 2) div 5 + 1;
          m = (if mp < 10 then mp + 3 else mp - 9);
          y = yoe + era * 400 + (if m \<le> 2 then 1 else 0)
      in pad 4 y @ ''-'' @ pad 2 m @ ''-'' @ pad 2 d @ ''T'' @
         pad 2 (r div 3600000) @ '':'' @ pad 2 (r mod 3600000 div 60000) @ '':'' @
         pad 2 (r mod 60000 div 1000) @ ''.'' @ pad 3 (r mod 1000) @ ''Z'')"

text \<open>\<open>setDate(getDate() - days)\<close> in a process whose time zone is UTC; a time out of the
  range of \<open>Date\<close> is invalid.\<close>

definition sampleDaysBefore :: "int \<Rightarrow> int \<Rightarrow> string option" where
  "sampleDaysBefore now days =
     (let t = now - days * 86400000
      in if \<bar>t\<bar> \<le> 8640000000000000 then Some (sampleISO t) else None)"

definition sampleCompare :: "string \<Rightarrow> string \<Rightarrow> int" where
  "sampleCompare a b = (if a < b then - 1 else if a = b then 0 else 1)"

text \<open>
  Modelled from the spec: the four JSON schemas (\<open>schemas/*.schema.json\<close>) are not among
  the sources. The envelope requires \<open>action\<close> (one of the four action names), \<open>mode\<close>
  (\<open>dry_run\<close> or \<open>execute\<close>), \<open>idempotencyKey\<close> (a string) and \<open>params\<close> (an object) and
  rejects any other top-level field; every violation is listed. The parameters of
  \<open>jobtread.query\<close> hold an object \<open>pave\<close>, those of \<open>jobtread.pushJobToQbo\<close> a non-empty
  string \<open>jobId\<close>, those of \<open>make.trigger\<close> a URI \<open>webhookUrl\<close> and an object \<open>payload\<close>.
\<close>

definition violation :: "string \<Rightarrow> json" where
  "violation msg = JObj [(''message'', JStr msg)]"

definition stringField :: "(string \<times> json) list \<Rightarrow> string \<Rightarrow> string option" where
  "stringField kvs k = (case map_of kvs k of Some (JStr t) \<Rightarrow> Some t | _ \<Rightarrow> None)"

definition objectField :: "(string \<times> json) list \<Rightarrow> string \<Rightarrow> json option" where
  "objectField kvs k = (case map_of kvs k of Some (JObj kvs2) \<Rightarrow> Some (JObj kvs2) | _ \<Rightarrow> None)"

definition sampleValidateEnvelope :: "json \<Rightarrow> json list + envelope" where
  "sampleValidateEnvelope v =
     (case v of
        JObj kvs \<Rightarrow>
          (let errs =
             (case stringField kvs ''action'' of
                None \<Rightarrow> [violation ''action must be a string'']
              | Some a \<Rightarrow>
                  if a \<in> set [''echo'', ''jobtread.query'', ''jobtread.pushJobToQbo'', ''make.trigger'']
                  then [] else [violation ''action must be equal to one of the allowed values'']) @
             (case stringField kvs ''mode'' of
                None \<Rightarrow> [violation ''mode must be a string'']
              | Some m \<Rightarrow>
                  if m \<in> set [''dry_run'', ''execute'']
                  then [] else [violation ''mode must be equal to one of the allowed values'']) @
             (case stringField kvs ''idempotencyKey'' of
                None \<Rightarrow> [violation ''idempotencyKey must be a string'']
              | Some k \<Rightarrow> []) @
             (case objectField kvs ''params'' of
                None \<Rightarrow> [violation ''params must be an object'']
              | Some p \<Rightarrow> []) @
             map (\<lambda>k. violation (''must NOT have additional property '' @ k))
               (filter (\<lambda>k. k \<notin> set [''action'', ''mode'', ''idempotencyKey'', ''params''])
                  (map fst kvs))
           in if errs = []
              then Inr \<lparr>e_action = orEmpty (stringField kvs ''action''),
                       e_mode = orEmpty (stringField kvs ''mode''),
                       e_idempotencyKey = orEmpty (stringField kvs ''idempotencyKey''),
                       e_params = (case objectField kvs ''params'' of Some p \<Rightarrow> p | None \<Rightarrow> JNull)\<rparr>
              else Inl errs)
      | _ \<Rightarrow> Inl [violation ''must be an object''])"

definition sampleValidateQuery :: "json \<Rightarrow> json list + JobTreadQueryParams" where
  "sampleValidateQuery v =
     (case v of
        JObj kvs \<Rightarrow>
          (case objectField kvs ''pave'' of
             Some p \<Rightarrow> Inr \<lparr>pave = p\<rparr>
           | None \<Rightarrow> Inl [violation ''pave must be an object''])
      | _ \<Rightarrow> Inl [violation ''must be an object''])"

definition sampleValidatePush :: "json \<Rightarrow> json list + JobTreadPushJobToQboParams" where
  "sampleValidatePush v =
     (case v of
        JObj kvs \<Rightarrow>
          (case stringField kvs ''jobId'' of
             Some j \<Rightarrow> if j = [] then Inl [violation ''jobId must not be empty'']
                       else Inr \<lparr>jobId = j\<rparr>
           | None \<Rightarrow> Inl [violation ''jobId must be a string''])
      | _ \<Rightarrow> Inl [violation ''must be an object''])"

definition sampleValidateTrigger :: "json \<Rightarrow> json list + MakeTriggerParams" where
  "sampleValidateTrigger v =
     (case v of
        JObj kvs \<Rightarrow>
          (let errs =
             (case stringField kvs ''webhookUrl'' of
                None \<Rightarrow> [violation ''webhookUrl must be a string'']
              | Some u \<Rightarrow> if sampleHostname u = None
                          then [violation ''webhookUrl must be a URI''] else []) @
             (case objectField kvs ''payload'' of
                None \<Rightarrow> [violation ''payload must be an object'']
              | Some p \<Rightarrow> [])
           in if errs = []
              then Inr \<lparr>webhookUrl = orEmpty (stringField kvs ''webhookUrl''),
                       payload = (case objectField kvs ''payload'' of Some p \<Rightarrow> p | None \<Rightarrow> JNull)\<rparr>
              else Inl errs)
      | _ \<Rightarrow> Inl [violation ''must be an object''])"

text \<open>The deployment: trace identifiers are numbered, the clock starts on 3 November 2025
  and advances a millisecond per reading, and no downstream system answers.\<close>

definition sampleEnv :: env where
  "sampleEnv =
     \<lparr>HMAC_SECRET = Some ''key'',
      GATEWAY_KEY_DB = Some ''gateway-db'',
      GATEWAY_KEY_CI = Some ''gateway-ci'',
      JT_GRANT_KEY_DB = Some ''grant-db'',
      JT_GRANT_KEY_CI = Some ''grant-ci'',
      ALLOW_HOSTS = Some ''hooks.make.com'',
      LOG_RETENTION_DAYS = None,
      hmacSha256 = sampleHmac,
      urlHostname = sampleHostname,
      numberToString = sampleNumber,
      jsonStringify = sampleStringify,
      jsonParse = sampleParse,
      uuidv4 = (\<lambda>n. ''trace-'' @ showNat n),
      clock = (\<lambda>n. 1762128000000 + int n),
      toISOString = sampleISO,
      isoDaysBefore = sampleDaysBefore,
      localeCompare = sampleCompare,
      network = (\<lambda>n rq. Failed ''connect ECONNREFUSED''),
      validateEnvelope = sampleValidateEnvelope,
      validateJobTreadQuery = sampleValidateQuery,
      validateJobTreadPushJobToQbo = sampleValidatePush,
      validateMakeTrigger = sampleValidateTrigger\<rparr>"

definition world0 :: world where
  "world0 = \<lparr>sent = [], slept = [], minted = 0, ticks = 0\<rparr>"

definition state0 :: state where
  "state0 = \<lparr>idempotencyCache = Map.empty, logs = [], runs = [], io = world0\<rparr>"

section \<open>Notions used to state the properties\<close>

text \<open>The string \<open>s\<close> with bit \<open>b\<close> of its character at index \<open>i\<close> flipped.\<close>

definition flipBit :: "nat \<Rightarrow> nat \<Rightarrow> string \<Rightarrow> string" where
  "flipBit i b s = s[i := char_of ((of_char (s ! i) :: nat) XOR 2 ^ b)]"

text \<open>The signature header of \<open>foxBody\<close> under the secret \<open>key\<close>.\<close>

definition foxHeader :: string where
  "foxHeader = ''sha256=f7bc83f430538424b13298e6aa6fb143ef4d59a14946175997479dbc2d1a3cd8''"

text \<open>Whether an attempt failed at the transport level.\<close>

fun isFailed :: "outcome \<Rightarrow> bool" where
  "isFailed (Failed msg) = True"
| "isFailed (Answered st hs t) = False"






text \<open>Whether a value shows a secret: some property, at any depth, has a sensitive name
  and a value other than the redaction marker.\<close>

function exposed :: "json \<Rightarrow> bool" where
  "exposed (JArr xs) = list_ex exposed xs"
| "exposed (JObj kvs) = list_ex (\<lambda>(k, v). (isSensitive k \<and> v \<noteq> MASKED) \<or> exposed v) kvs"
| "exposed JNull = False"
| "exposed (JBool b) = False"
| "exposed (JNum n) = False"
| "exposed (JStr s) = False"
  by pat_completeness auto
termination
proof (relation "measure size")
  show "wf (measure size)" by simp
next
  fix xs :: "json list" and x
  assume "x \<in> set xs"
  then show "(x, JArr xs) \<in> measure size"
    by (induction xs) auto
next
  fix kvs :: "(string \<times> json) list" and kv k v
  assume "kv \<in> set kvs" "(k, v) = kv"
  then have "(k, v) \<in> set kvs" by simp
  then have "size v < Suc (size_list (size_prod (\<lambda>x. 0) size) kvs)"
    by (induction kvs) auto
  then show "(v, JObj kvs) \<in> measure size" by simp
qed

text \<open>An entry that carries a request with credentials among its further properties.\<close>

definition leakyEntry :: LogEntry where
  "leakyEntry =
     \<lparr>timestamp = ''2025-11-03T00:00:00.000Z'', traceId = ''trace-0'', brand = DB,
      action = ''jobtread.query'', mode = ''execute'', status = Error, duration = 12,
      lnotes = [], error = Some ''JobTread query failed'',
      extra = [(''request'',
                JObj [(''headers'', JArr [JObj [(''Authorization'', JStr ''Bearer abc'')]]),
                      (''grantKey'', JStr ''grant-db'')])]\<rparr>"



text \<open>Whether a lint result lists a page-size violation.\<close>

definition listsPageSize :: "string list \<Rightarrow> bool" where
  "listsPageSize errs = list_ex (\<lambda>e. prefix ''Page size limit exceeded: '' e) errs"

text \<open>Whether a response body carries a trace identifier.\<close>

fun hasTrace :: "json \<Rightarrow> bool" where
  "hasTrace (JObj kvs) = (map_of kvs ''traceId'' \<noteq> None)"
| "hasTrace v = False"

text \<open>The replies of the endpoint: a success or a caught error, each with a trace
  identifier, or one of the early rejections, without one. An escaped exception is
  answered by the framework, not by the handler.\<close>

fun replyShape :: "reply \<Rightarrow> bool" where
  "replyShape (Replied st b) =
     (((st = 200 \<or> st = 500) \<and> hasTrace b) \<or> ((st = 400 \<or> st = 401 \<or> st = 422) \<and> \<not> hasTrace b))"
| "replyShape (Escaped e) = True"

text \<open>Every cached response carries a trace identifier.\<close>

definition cacheTraced :: "state \<Rightarrow> bool" where
  "cacheTraced s = (\<forall>k b. idempotencyCache s k = Some b \<longrightarrow> hasTrace b)"

text \<open>How one request may change the cache: not at all, or by one new key that holds
  the body replied with status 200.\<close>

definition cacheStep :: "state \<Rightarrow> reply \<Rightarrow> state \<Rightarrow> bool" where
  "cacheStep s r s' =
     (idempotencyCache s' = idempotencyCache s
      \<or> (\<exists>k b. idempotencyCache s k = None \<and> r = Replied 200 b
                \<and> idempotencyCache s' = (idempotencyCache s)(k \<mapsto> b)))"

text \<open>The state with another idempotency cache.\<close>

definition withCache :: "(string \<rightharpoonup> json) \<Rightarrow> state \<Rightarrow> state" where
  "withCache c s = s\<lparr>idempotencyCache := c\<rparr>"

text \<open>
  A request that passes steps 1 to 4 as the brand \<open>b\<close> with the envelope \<open>ev\<close>:
  body and headers are there, the signature is valid, the gateway key is that of \<open>b\<close>,
  and the envelope is valid. The predicate \<open>gate\<close> adds that the parameters of its
  action are valid as well.
\<close>

definition authentic :: "env \<Rightarrow> request \<Rightarrow> brand \<Rightarrow> envelope \<Rightarrow> bool" where
  "authentic E rq b ev =
     (orEmpty (rawBody rq) \<noteq> [] \<and> orEmpty (x_gateway_key rq) \<noteq> []
      \<and> orEmpty (x_signature rq) \<noteq> [] \<and> orEmpty (HMAC_SECRET E) \<noteq> []
      \<and> verifyHmacSignature E (orEmpty (rawBody rq)) (orEmpty (x_signature rq))
            (orEmpty (HMAC_SECRET E))
      \<and> getBrandFromGatewayKey E (orEmpty (x_gateway_key rq)) = Inr (Some b)
      \<and> validateEnvelope E (body rq) = Inr ev)"

definition gate :: "env \<Rightarrow> request \<Rightarrow> brand \<Rightarrow> envelope \<Rightarrow> action_params \<Rightarrow> bool" where
  "gate E rq b ev p =
     (authentic E rq b ev \<and> validateParams E (e_action ev) (e_params ev) = ValidParams p)"

text \<open>The state after the start time is read and the trace identifier is minted.\<close>

definition traced :: "state \<Rightarrow> state" where
  "traced s = s\<lparr>io := (io s)\<lparr>ticks := Suc (ticks (io s)), minted := Suc (minted (io s))\<rparr>\<rparr>"

text \<open>The grant key step 8 looks up: an error, none for another action, or the key.\<close>

definition grantFor :: "env \<Rightarrow> string \<Rightarrow> brand \<Rightarrow> string + string option" where
  "grantFor E act b =
     (if startsWith act ''jobtread.'' then map_sum id Some (getGrantKeyForBrand E b) else Inr None)"

text \<open>The sample deployment with a JobTread that answers every call with \<open>{"ok":true}\<close>.\<close>

definition okEnv :: env where
  "okEnv = sampleEnv\<lparr>network := (\<lambda>n rq. Answered 200 [] ''{\"ok\":true}'')\<rparr>"

text \<open>Requests of the brand DB, signed under the secret \<open>key\<close>: an echo; a push of job
  12345 in execute mode under the idempotency key \<open>k1\<close>; the same key with parameters
  that lack the job; the same key in dry-run mode; a request without a body; and the
  echo with the signature of another body.\<close>

definition echoRequest :: request where
  "echoRequest =
     \<lparr>rawBody = Some echoBody,
      body = JObj [(''action'', JStr ''echo''), (''mode'', JStr ''dry_run''),
                   (''idempotencyKey'', JStr ''k1''),
                   (''params'', JObj [(''msg'', JStr ''hi'')])],
      x_gateway_key = Some ''gateway-db'',
      x_signature = Some ''sha256=1400398f4e3774f32a8884dcd211f369b76ea9a4f43e8be5066d6e572016b4bf''\<rparr>"

definition pushRequest :: request where
  "pushRequest =
     \<lparr>rawBody = Some pushBody,
      body = JObj [(''action'', JStr ''jobtread.pushJobToQbo''), (''mode'', JStr ''execute''),
                   (''idempotencyKey'', JStr ''k1''),
                   (''params'', JObj [(''jobId'', JStr ''12345'')])],
      x_gateway_key = Some ''gateway-db'',
      x_signature = Some ''sha256=be1ecfa27a359b34a77282b2b12ed6fb492fd25c1830af9bd22d141255f281ed''\<rparr>"

definition pushBadRequest :: request where
  "pushBadRequest =
     \<lparr>rawBody = Some pushBadBody,
      body = JObj [(''action'', JStr ''jobtread.pushJobToQbo''), (''mode'', JStr ''execute''),
                   (''idempotencyKey'', JStr ''k1''), (''params'', JObj [])],
      x_gateway_key = Some ''gateway-db'',
      x_signature = Some ''sha256=e2468e892d769d011074fd452e60ae67baf944907a9f14f47ed1a57fafad8edf''\<rparr>"

definition pushDryRequest :: request where
  "pushDryRequest =
     \<lparr>rawBody = Some pushDryBody,
      body = JObj [(''action'', JStr ''jobtread.pushJobToQbo''), (''mode'', JStr ''dry_run''),
                   (''idempotencyKey'', JStr ''k1''),
                   (''params'', JObj [(''jobId'', JStr ''12345'')])],
      x_gateway_key = Some ''gateway-db'',
      x_signature = Some ''sha256=7a0cf068b90aaf1c4ce7fce3fa92a1189295cce543808e50247013e943a892b0''\<rparr>"

definition noBodyRequest :: request where
  "noBodyRequest =
     \<lparr>rawBody = None, body = JNull, x_gateway_key = Some ''gateway-db'', x_signature = None\<rparr>"

definition forgedRequest :: request where
  "forgedRequest = echoRequest\<lparr>x_signature := Some foxHeader\<rparr>"

text \<open>The state after the push has been executed once, and the response it got.\<close>

definition pushedState :: state where
  "pushedState = snd (handler okEnv pushRequest state0)"

definition pushReply :: json where
  "pushReply =
     successBody ''trace-0'' (JObj [(''ok'', JBool True)])
       [''Job 12345 pushed to QuickBooks Online successfully'']"

definition pushEnvelope :: envelope where
  "pushEnvelope =
     \<lparr>e_action = ''jobtread.pushJobToQbo'', e_mode = ''execute'', e_idempotencyKey = ''k1'',
      e_params = JObj [(''jobId'', JStr ''12345'')]\<rparr>"

text \<open>Whether an append at the time \<open>now\<close> can compute its cutoff, and so does not
  throw.\<close>

definition canLog :: "env \<Rightarrow> int \<Rightarrow> bool" where
  "canLog E now =
     (case retentionDays E of
        None \<Rightarrow> False
      | Some days \<Rightarrow> isoDaysBefore E now days \<noteq> None)"

definition pushBadEnvelope :: envelope where
  "pushBadEnvelope = pushEnvelope\<lparr>e_params := JObj []\<rparr>"

definition pushDryEnvelope :: envelope where
  "pushDryEnvelope = pushEnvelope\<lparr>e_mode := ''dry_run''\<rparr>"







section \<open>The allowlist\<close>

lemma hostLoop_parent:
  "allowedHost \<in> set hosts \<Longrightarrow> endsWith allowedHost (''.'' @ hostname) \<Longrightarrow> hostLoop hostname hosts"
  by (induction hosts) auto

text \<open>
  C10. Whenever a configured allowed host ends with a dot followed by the hostname of the
  URL, \<open>isHostAllowed\<close> accepts the URL: the allowlist admits the parent domains of its
  entries. With only \<open>hooks.make.com\<close> allowed, \<open>https://make.com/hook\<close> is accepted,
  though \<open>make.com\<close> is neither listed nor a subdomain of a listed host.
\<close>

theorem isHostAllowed_admits_parent_domain:
  assumes "ALLOW_HOSTS E = Some allowHosts" and "allowHosts \<noteq> []"
    and "urlHostname E url = Some hostname"
    and "allowedHost \<in> set (allowedHosts allowHosts)"
    and "endsWith allowedHost (''.'' @ hostname)"
  shows "isHostAllowed E url = Inr True"
  using assms by (simp add: isHostAllowed_def hostLoop_parent)

theorem isHostAllowed_admits_parent_domain_witness:
  "isHostAllowed sampleEnv ''https://make.com/hook'' = Inr True
   \<and> urlHostname sampleEnv ''https://make.com/hook'' = Some ''make.com''
   \<and> allowedHosts ''hooks.make.com'' = [''hooks.make.com'']
   \<and> ''make.com'' \<notin> set (allowedHosts ''hooks.make.com'')
   \<and> \<not> list_ex (\<lambda>a. endsWith ''make.com'' (''.'' @ a)) (allowedHosts ''hooks.make.com'')"
proof -
  have h: "urlHostname sampleEnv ''https://make.com/hook'' = Some ''make.com''"
    by (simp add: sampleEnv_def sampleHostname_def)
  have l: "allowedHosts ''hooks.make.com'' = [''hooks.make.com'']"
    by (simp add: allowedHosts_def trim_def isWhiteSpace_def)
  have e: "endsWith ''hooks.make.com'' (''.'' @ ''make.com'')"
    by (simp add: endsWith_def suffix_def)
  have a: "ALLOW_HOSTS sampleEnv = Some ''hooks.make.com''"
    by (simp add: sampleEnv_def)
  have "isHostAllowed sampleEnv ''https://make.com/hook'' = Inr True"
    using isHostAllowed_admits_parent_domain [OF a _ h _ e] l by simp
  moreover have "\<not> list_ex (\<lambda>a. endsWith ''make.com'' (''.'' @ a)) (allowedHosts ''hooks.make.com'')"
    unfolding l by (simp add: endsWith_def suffix_def)
  ultimately show ?thesis using h l by simp
qed

section \<open>The signature\<close>

lemma hexVal_hexDigit: "n < 16 \<Longrightarrow> hexVal (hexDigit n) = Some n"
proof -
  assume n: "n < 16"
  have "list_all (\<lambda>k. hexVal (hexDigit k) = Some k) [0..<16]"
    by code_simp
  with n show ?thesis
    by (simp add: list_all_iff)
qed

lemma hexDecode_hexEncode: "hexDecode (hexEncode ws) = ws"
proof (induction ws)
  case Nil
  show ?case by simp
next
  case (Cons w ws)
  have "unat w < 256" using unsigned_less [of w, where ?'a = nat] by simp
  then have d: "unat w div 16 < 16" by simp
  have m: "unat w mod 16 < 16" by simp
  show ?case using Cons by (simp add: hexVal_hexDigit [OF d] hexVal_hexDigit [OF m])
qed

lemma verify_iff:
  "verifyHmacSignature E raw sg secret \<longleftrightarrow>
     startsWith sg ''sha256='' \<and> hexDecode (drop 7 sg) = hmacSha256 E secret raw"
  by (auto simp: verifyHmacSignature_def Let_def hexDecode_hexEncode timingSafeEqual_def
      startsWith_def)

lemma fox_digest: "hmacSha256 sampleEnv ''key'' foxBody = hexDecode (drop 7 foxHeader)"
  by (simp add: sampleEnv_def sampleHmac_def foxHeader_def)

text \<open>
  C9, as the code has it. \<open>verifyHmacSignature\<close> accepts the header \<open>sha256=\<close> followed
  by the hex digest of the body under the secret; it rejects every header that does not
  start with \<open>sha256=\<close>; it accepts a header exactly when the bytes that Node decodes from
  the text after \<open>sha256=\<close> are the digest; and it rejects the signature of one body and
  secret for another body or secret whenever their digests differ. It is a total
  function: no input makes it throw.
\<close>

theorem verifyHmacSignature_decodes:
  "verifyHmacSignature E raw (''sha256='' @ hexEncode (hmacSha256 E secret raw)) secret
   \<and> (\<not> startsWith sg ''sha256='' \<longrightarrow> \<not> verifyHmacSignature E raw sg secret)
   \<and> (verifyHmacSignature E raw sg secret \<longleftrightarrow>
        startsWith sg ''sha256='' \<and> hexDecode (drop 7 sg) = hmacSha256 E secret raw)
   \<and> (hmacSha256 E secret' raw' \<noteq> hmacSha256 E secret raw \<longrightarrow>
        \<not> verifyHmacSignature E raw' (''sha256='' @ hexEncode (hmacSha256 E secret raw)) secret')"
  by (simp add: verify_iff startsWith_def hexDecode_hexEncode)

theorem verifyHmacSignature_decodes_witness:
  "verifyHmacSignature sampleEnv foxBody foxHeader ''key''
   \<and> \<not> startsWith ''md5=f7bc83f4'' ''sha256=''
   \<and> \<not> verifyHmacSignature sampleEnv foxBody ''md5=f7bc83f4'' ''key''
   \<and> hmacSha256 sampleEnv ''key'' echoBody \<noteq> hmacSha256 sampleEnv ''key'' foxBody
   \<and> \<not> verifyHmacSignature sampleEnv echoBody foxHeader ''key''"
proof -
  have enc: "''sha256='' @ hexEncode (hmacSha256 sampleEnv ''key'' foxBody) = foxHeader"
    by (simp add: sampleEnv_def sampleHmac_def foxHeader_def hexVal_def hexDigit_def)
  have np: "\<not> startsWith ''md5=f7bc83f4'' ''sha256=''"
    by (simp add: startsWith_def)
  have ne: "hmacSha256 sampleEnv ''key'' echoBody \<noteq> hmacSha256 sampleEnv ''key'' foxBody"
    by (simp add: sampleEnv_def sampleHmac_def echoBody_def foxBody_def hexVal_def)
  show ?thesis
    using verifyHmacSignature_decodes
            [of sampleEnv foxBody "''key''" "''md5=f7bc83f4''" "''key''" echoBody]
      enc np ne by simp
qed

text \<open>
  C9 as stated fails. Flipping bit 5 of the first hex digit of a valid header turns
  \<open>f\<close> into \<open>F\<close>, a single-bit mutation of the signature header that is still accepted;
  and a valid header followed by the malformed hex \<open>zz\<close> is accepted as well.
\<close>

theorem verifyHmacSignature_mutation_counterexample:
  "flipBit 7 5 foxHeader \<noteq> foxHeader
   \<and> flipBit 7 5 foxHeader = ''sha256=F7bc83f430538424b13298e6aa6fb143ef4d59a14946175997479dbc2d1a3cd8''
   \<and> verifyHmacSignature sampleEnv foxBody (flipBit 7 5 foxHeader) ''key''
   \<and> verifyHmacSignature sampleEnv foxBody (foxHeader @ ''zz'') ''key''"
proof -
  have f: "flipBit 7 5 foxHeader = ''sha256=F7bc83f430538424b13298e6aa6fb143ef4d59a14946175997479dbc2d1a3cd8''"
    by code_simp
  have d1: "hexDecode (drop 7 (flipBit 7 5 foxHeader)) = hexDecode (drop 7 foxHeader)"
    unfolding f by (simp add: foxHeader_def hexVal_def)
  have d2: "hexDecode (drop 7 (foxHeader @ ''zz'')) = hexDecode (drop 7 foxHeader)"
    by (simp add: foxHeader_def hexVal_def)
  have p1: "startsWith (flipBit 7 5 foxHeader) ''sha256=''"
    unfolding f by (simp add: startsWith_def)
  have p2: "startsWith (foxHeader @ ''zz'') ''sha256=''"
    by (simp add: startsWith_def foxHeader_def)
  show ?thesis
    using f d1 d2 p1 p2 by (simp add: verify_iff fox_digest foxHeader_def)
qed

section \<open>The HTTP client\<close>

lemma httpLoop_answered:
  assumes "0 \<le> a" and "a + int k \<le> maxRetriesOf opts"
    and "\<forall>i<k. isFailed (network E (length (sent w) + i) (wireRequest E opts))"
    and "network E (length (sent w) + k) (wireRequest E opts) = Answered st hs t"
  shows "httpLoop E opts a lastError w =
           (Inr \<lparr>r_status = st, r_headers = hs, r_data = parseData E t\<rparr>,
            w\<lparr>sent := sent w @ replicate (Suc k) (wireRequest E opts),
              slept := slept w @ map (\<lambda>j. 2 ^ (nat a + j) * 1000) [0..<k]\<rparr>)"
  using assms
proof (induction k arbitrary: a lastError w)
  case 0
  then show ?case
    by (subst httpLoop.simps) (simp add: Let_def)
next
  case (Suc k)
  from Suc.prems(3) have "isFailed (network E (length (sent w)) (wireRequest E opts))"
    by (metis add.right_neutral zero_less_Suc)
  then obtain msg where f: "network E (length (sent w)) (wireRequest E opts) = Failed msg"
    by (cases "network E (length (sent w)) (wireRequest E opts)") auto
  let ?w' = "w\<lparr>sent := sent w @ [wireRequest E opts],
               slept := slept w @ [2 ^ nat a * 1000]\<rparr>"
  have step: "httpLoop E opts a lastError w = httpLoop E opts (a + 1) (Some msg) ?w'"
    using Suc.prems(1,2) f by (subst httpLoop.simps) (simp add: Let_def)
  have ih: "httpLoop E opts (a + 1) (Some msg) ?w' =
           (Inr \<lparr>r_status = st, r_headers = hs, r_data = parseData E t\<rparr>,
            ?w'\<lparr>sent := sent ?w' @ replicate (Suc k) (wireRequest E opts),
              slept := slept ?w' @ map (\<lambda>j. 2 ^ (nat (a + 1) + j) * 1000) [0..<k]\<rparr>)"
  proof (rule Suc.IH)
    show "0 \<le> a + 1" using Suc.prems(1) by simp
    show "a + 1 + int k \<le> maxRetriesOf opts" using Suc.prems(2) by simp
    show "\<forall>i<k. isFailed (network E (length (sent ?w') + i) (wireRequest E opts))"
      using Suc.prems(3) by auto
    show "network E (length (sent ?w') + k) (wireRequest E opts) = Answered st hs t"
      using Suc.prems(4) by simp
  qed
  have m: "map (\<lambda>j. 2 ^ (nat a + j) * 1000) [0..<Suc k] =
           (2 ^ nat a * 1000 :: nat) # map (\<lambda>j. 2 ^ (nat (a + 1) + j) * 1000) [0..<k]"
    using Suc.prems(1) by (simp add: upt_rec [of 0] map_Suc_upt [symmetric] nat_add_distrib del: upt_Suc)
  show ?case
    unfolding step ih using m by (simp add: replicate_app_Cons_same del: upt_Suc)
qed





section \<open>The audit log\<close>

lemma pruneFrom_filter:
  "pruneFrom c i ls = take i ls @ filter (\<lambda>e. \<not> timestamp e < c) (drop i ls)"
proof (induction c i ls rule: pruneFrom.induct)
  case (1 c i ls)
  show ?case
  proof (cases "i < length ls")
    case False
    then show ?thesis by (subst pruneFrom.simps) simp
  next
    case True
    then have d: "drop i ls = ls ! i # drop (Suc i) ls"
      by (simp add: Cons_nth_drop_Suc)
    show ?thesis
    proof (cases "timestamp (ls ! i) < c")
      case old: True
      have t: "take i (splice1 ls i) = take i ls"
        using True by (simp add: splice1_def)
      have r: "drop i (splice1 ls i) = drop (Suc i) ls"
        using True by (simp add: splice1_def)
      show ?thesis
        using "1.IH"(1) [OF True old] True old d t r
        by (subst pruneFrom.simps) simp
    next
      case new: False
      show ?thesis
        using "1.IH"(2) [OF True new] True new d
        by (subst pruneFrom.simps) (simp add: take_Suc_conv_app_nth)
    qed
  qed
qed

lemma set_insertBy: "set (insertBy cmp x xs) = insert x (set xs)"
  by (induction xs) auto

lemma set_sortBy: "set (sortBy cmp xs) = set xs"
  unfolding sortBy_def by (induction xs) (auto simp: set_insertBy)


lemma getLogs_None: "set (getLogs E None ls) = set ls"
  by (simp add: getLogs_def set_sortBy)



lemma sample_cutoff:
  "isoDaysBefore sampleEnv 1762128000000 60 = Some ''2025-09-04T00:00:00.000Z''"
  by code_simp

lemma sample_retention: "retentionDays sampleEnv = Some 60"
  by code_simp


lemma maskSecrets_hides: "\<not> exposed (maskSecrets v)"
proof (induction v)
  case (JArr xs)
  then show ?case by (simp add: list_ex_iff)
next
  case (JObj kvs)
  have "\<And>k v. (k, v) \<in> set kvs \<Longrightarrow> \<not> exposed (maskSecrets v)"
    using JObj by (auto simp: snds.simps)
  moreover have "\<not> exposed MASKED" by (simp add: MASKED_def)
  moreover have "\<And>v. \<not> (truthy v \<and> typeofObject v) \<Longrightarrow> \<not> exposed v"
    subgoal for v by (cases v) auto
    done
  ultimately show ?case
    by (auto simp: list_ex_iff split: if_splits)
qed simp_all

text \<open>
  C2 does not hold of the code. \<open>maskSecrets\<close> would hide every sensitive property
  (\<open>maskSecrets_hides\<close>), but \<open>addLog\<close> never calls it: it stores the entry as given, and
  a query returns it with its secrets in clear.
\<close>

theorem addLog_stores_secrets_unmasked:
  "addLog sampleEnv 1762128000000 leakyEntry [] = (None, [leakyEntry])
   \<and> getLogs sampleEnv None (snd (addLog sampleEnv 1762128000000 leakyEntry [])) = [leakyEntry]
   \<and> exposed (entryJson leakyEntry)
   \<and> \<not> exposed (maskSecrets (entryJson leakyEntry))"
proof -
  have a: "addLog sampleEnv 1762128000000 leakyEntry [] = (None, [leakyEntry])"
    using sample_retention sample_cutoff
    by (simp add: addLog_def pruneFrom_filter leakyEntry_def)
  have g: "getLogs sampleEnv None [leakyEntry] = [leakyEntry]"
    by (simp add: getLogs_def sortBy_def)
  have s: "isSensitive ''grantKey''"
    by code_simp
  have e: "exposed (entryJson leakyEntry)"
    using s by (simp add: entryJson_def leakyEntry_def MASKED_def)
  show ?thesis
    using a g e maskSecrets_hides by simp
qed

section \<open>The query lint\<close>

lemma listsPageSize_append [simp]:
  "listsPageSize (a @ b) = (listsPageSize a \<or> listsPageSize b)"
  by (auto simp: listsPageSize_def list_ex_iff)

lemma fst_both [simp]: "fst (both a b) = fst a @ fst b"
  by (simp add: both_def)

lemma listsPageSize_Nil [simp]: "\<not> listsPageSize []"
  by (simp add: listsPageSize_def)



lemma thenBoth_simps [simp]:
  "thenBoth (Inl e) b = Inl e"
  "thenBoth (Inr x) (Inl e) = Inl e"
  "thenBoth (Inr x) (Inr y) = Inr (both x y)"
  by (simp_all add: thenBoth_def andThen_def)


section \<open>The endpoint\<close>

lemma onError_cases:
  "(\<exists>tid s'. onError E st tidOpt bOpt aOpt mOpt msg s = (Replied 500 (failureBody tid msg), s')
        \<and> idempotencyCache s' = idempotencyCache s \<and> runs s' = runs s
        \<and> sent (io s') = sent (io s) \<and> slept (io s') = slept (io s))
   \<or> (\<exists>e s'. onError E st tidOpt bOpt aOpt mOpt msg s = (Escaped e, s')
        \<and> idempotencyCache s' = idempotencyCache s \<and> runs s' = runs s
        \<and> sent (io s') = sent (io s) \<and> slept (io s') = slept (io s))"
  by (auto simp: onError_def readClock_def Let_def split_def split: option.splits)

lemma withCache_simps [simp]:
  "logs (withCache c s) = logs s"
  "io (withCache c s) = io s"
  "runs (withCache c s) = runs s"
  "idempotencyCache (withCache c s) = c"
  "logs_update f (withCache c s) = withCache c (logs_update f s)"
  "io_update g (withCache c s) = withCache c (io_update g s)"
  "runs_update h (withCache c s) = withCache c (runs_update h s)"
  by (simp_all add: withCache_def)

lemma onError_lift:
  "onError E st tidOpt bOpt aOpt mOpt msg (withCache c s) =
     (fst (onError E st tidOpt bOpt aOpt mOpt msg s),
      withCache c (snd (onError E st tidOpt bOpt aOpt mOpt msg s)))"
  by (auto simp: onError_def readClock_def Let_def split_def split: option.splits)


lemma onError_shape: "replyShape (fst (onError E st tidOpt bOpt aOpt mOpt msg s))"
  using onError_cases [of E st tidOpt bOpt aOpt mOpt msg s]
  by (auto simp: failureBody_def)

lemma onError_cache:
  "idempotencyCache (snd (onError E st tidOpt bOpt aOpt mOpt msg s)) = idempotencyCache s"
  using onError_cases [of E st tidOpt bOpt aOpt mOpt msg s] by auto

lemma onError_runs: "runs (snd (onError E st tidOpt bOpt aOpt mOpt msg s)) = runs s"
  using onError_cases [of E st tidOpt bOpt aOpt mOpt msg s] by auto

lemma onError_not_200: "fst (onError E st tidOpt bOpt aOpt mOpt msg s) \<noteq> Replied 200 b"
  using onError_cases [of E st tidOpt bOpt aOpt mOpt msg s] by auto

lemma finish_cases:
  "(fst (finish E st b tid act md k res ns s) = Replied 200 (successBody tid res ns)
      \<and> idempotencyCache (snd (finish E st b tid act md k res ns s)) =
          (if md = ''execute'' then (idempotencyCache s)(k \<mapsto> successBody tid res ns)
           else idempotencyCache s))
   \<or> ((\<forall>body. fst (finish E st b tid act md k res ns s) \<noteq> Replied 200 body)
      \<and> idempotencyCache (snd (finish E st b tid act md k res ns s)) = idempotencyCache s)"
  by (auto simp: finish_def readClock_def Let_def split_def onError_cache onError_not_200
      split: option.splits)

lemma finish_shape: "replyShape (fst (finish E st b tid act md k res ns s))"
  by (auto simp: finish_def readClock_def Let_def split_def onError_shape successBody_def
      split: option.splits)

lemma finish_runs: "runs (snd (finish E st b tid act md k res ns s)) = runs s"
  by (auto simp: finish_def readClock_def Let_def split_def onError_runs
      split: option.splits)

lemma finish_lift:
  "md \<noteq> ''execute'' \<Longrightarrow>
   finish E st b tid act md k res ns (withCache c s) =
     (fst (finish E st b tid act md k res ns s),
      withCache c (snd (finish E st b tid act md k res ns s)))"
  by (auto simp: finish_def readClock_def Let_def split_def onError_lift
      split: option.splits)

lemma runAction_shape: "replyShape (fst (runAction E st b tid act md k p s))"
  by (auto simp: runAction_def onError_shape finish_shape split: sum.splits prod.splits)

lemma runAction_cases:
  "(\<exists>body. fst (runAction E st b tid act md k p s) = Replied 200 body
      \<and> idempotencyCache (snd (runAction E st b tid act md k p s)) =
          (if md = ''execute'' then (idempotencyCache s)(k \<mapsto> body) else idempotencyCache s))
   \<or> ((\<forall>body. fst (runAction E st b tid act md k p s) \<noteq> Replied 200 body)
      \<and> idempotencyCache (snd (runAction E st b tid act md k p s)) = idempotencyCache s)"
proof (cases "if startsWith act ''jobtread.'' then map_sum id Some (getGrantKeyForBrand E b) else Inr None")
  case (Inl e)
  then show ?thesis
    by (simp add: runAction_def onError_cache onError_not_200)
next
  case (Inr g)
  show ?thesis
  proof (cases "dispatch E p tid b g md (io s)")
    case (Pair r w')
    show ?thesis
    proof (cases r)
      case (Inl e)
      with Pair Inr show ?thesis
        by (simp add: runAction_def onError_cache onError_not_200)
    next
      case (Inr rn)
      obtain res ns where rn: "rn = (res, ns)" by (cases rn)
      show ?thesis
        using finish_cases [of E st b tid act md k res ns "s\<lparr>runs := runs s @ [act], io := w'\<rparr>"]
          Pair Inr rn \<open>(if startsWith act ''jobtread.'' then map_sum id Some (getGrantKeyForBrand E b) else Inr None) = Inr g\<close>
        by (auto simp: runAction_def)
    qed
  qed
qed

lemma runAction_lift:
  "md \<noteq> ''execute'' \<Longrightarrow>
   runAction E st b tid act md k p (withCache c s) =
     (fst (runAction E st b tid act md k p s),
      withCache c (snd (runAction E st b tid act md k p s)))"
  by (auto simp: runAction_def onError_lift finish_lift split: sum.splits prod.splits)


lemma runAction_runs:
  "runs (snd (runAction E st b tid act md k p s)) =
     (case grantFor E act b of Inl e \<Rightarrow> runs s | Inr g \<Rightarrow> runs s @ [act])"
  by (auto simp: runAction_def grantFor_def onError_runs finish_runs
      split: sum.splits prod.splits)

lemma validateAndRun_shape:
  "cacheTraced s \<Longrightarrow> replyShape (fst (validateAndRun E st b ev s))"
  by (auto simp: validateAndRun_def Let_def runAction_shape errorBody_def errorDetails_def
      cacheTraced_def split: params_check.splits option.splits)

lemma validateAndRun_cacheStep:
  "cacheStep s (fst (validateAndRun E st b ev s)) (snd (validateAndRun E st b ev s))"
proof (cases "validateParams E (e_action ev) (e_params ev)")
  case UnknownAction
  then show ?thesis by (simp add: validateAndRun_def Let_def cacheStep_def)
next
  case (InvalidParams errs)
  then show ?thesis by (simp add: validateAndRun_def Let_def cacheStep_def)
next
  case (ValidParams p)
  let ?k = "idempotencyKeyOf (e_action ev) b (e_idempotencyKey ev)"
  let ?s1 = "s\<lparr>io := (io s)\<lparr>minted := Suc (minted (io s))\<rparr>\<rparr>"
  show ?thesis
  proof (cases "if e_mode ev = ''execute'' then idempotencyCache s ?k else None")
    case (Some cached)
    with ValidParams show ?thesis
      by (auto simp: validateAndRun_def Let_def cacheStep_def split: if_splits)
  next
    case None
    have r: "validateAndRun E st b ev s =
               runAction E st b (createTraceId E (minted (io s))) (e_action ev) (e_mode ev) ?k p ?s1"
      using ValidParams None by (auto simp: validateAndRun_def Let_def split: if_splits)
    show ?thesis
      unfolding r
      using runAction_cases [of E st b "createTraceId E (minted (io s))" "e_action ev"
              "e_mode ev" ?k p ?s1] None
      by (auto simp: cacheStep_def split: if_splits)
  qed
qed

lemma validateAndRun_lift:
  "e_mode ev \<noteq> ''execute'' \<Longrightarrow>
   validateAndRun E st b ev (withCache c s) =
     (fst (validateAndRun E st b ev s), withCache c (snd (validateAndRun E st b ev s)))"
  by (auto simp: validateAndRun_def Let_def runAction_lift split: params_check.splits)

lemma handler_authentic:
  "authentic E rq b ev \<Longrightarrow>
   handler E rq s = validateAndRun E (clock E (ticks (io s))) b ev
                      (s\<lparr>io := (io s)\<lparr>ticks := Suc (ticks (io s))\<rparr>\<rparr>)"
  by (simp add: handler_def authentic_def Let_def split_def readClock_def)

lemma handler_split:
  "(\<exists>b ev. authentic E rq b ev)
   \<or> (\<exists>msg. handler E rq s =
          (Replied 400 (errorBody msg), s\<lparr>io := (io s)\<lparr>ticks := Suc (ticks (io s))\<rparr>\<rparr>))
   \<or> (\<exists>msg. handler E rq s =
          (Replied 401 (errorBody msg), s\<lparr>io := (io s)\<lparr>ticks := Suc (ticks (io s))\<rparr>\<rparr>))
   \<or> (\<exists>errs. handler E rq s =
          (Replied 422 (errorDetails ''Invalid request format'' errs),
           s\<lparr>io := (io s)\<lparr>ticks := Suc (ticks (io s))\<rparr>\<rparr>))
   \<or> (\<exists>msg. handler E rq s =
          onError E (clock E (ticks (io s))) None None None None msg
            (s\<lparr>io := (io s)\<lparr>ticks := Suc (ticks (io s))\<rparr>\<rparr>))"
proof (cases "\<exists>b ev. authentic E rq b ev")
  case True
  then show ?thesis by simp
next
  case False
  then have n: "\<And>b ev. \<not> authentic E rq b ev" by simp
  show ?thesis
  proof (cases "orEmpty (rawBody rq) = [] \<or> orEmpty (x_gateway_key rq) = []
                \<or> orEmpty (x_signature rq) = [] \<or> orEmpty (HMAC_SECRET E) = []
                \<or> \<not> verifyHmacSignature E (orEmpty (rawBody rq)) (orEmpty (x_signature rq))
                       (orEmpty (HMAC_SECRET E))")
    case True
    then show ?thesis
      by (auto simp: handler_def Let_def split_def readClock_def)
  next
    case pre: False
    show ?thesis
    proof (cases "getBrandFromGatewayKey E (orEmpty (x_gateway_key rq))")
      case (Inl e)
      with pre show ?thesis
        by (auto simp: handler_def Let_def split_def readClock_def)
    next
      case (Inr bo)
      show ?thesis
      proof (cases bo)
        case None
        with pre Inr show ?thesis
          by (auto simp: handler_def Let_def split_def readClock_def)
      next
        case (Some b)
        show ?thesis
        proof (cases "validateEnvelope E (body rq)")
          case (Inl errs)
          with pre Inr Some show ?thesis
            by (auto simp: handler_def Let_def split_def readClock_def)
        next
          case (Inr ev)
          with pre \<open>getBrandFromGatewayKey E (orEmpty (x_gateway_key rq)) = Inr bo\<close> Some
          have "authentic E rq b ev"
            by (simp add: authentic_def)
          with n show ?thesis by simp
        qed
      qed
    qed
  qed
qed

lemma handler_shape: "cacheTraced s \<Longrightarrow> replyShape (fst (handler E rq s))"
  using handler_split [of E rq s]
  by (auto simp: handler_authentic validateAndRun_shape onError_shape errorBody_def
      errorDetails_def cacheTraced_def)

lemma handler_cacheStep: "cacheStep s (fst (handler E rq s)) (snd (handler E rq s))"
proof -
  have v: "\<And>st b ev s0. idempotencyCache s0 = idempotencyCache s \<Longrightarrow>
      cacheStep s (fst (validateAndRun E st b ev s0)) (snd (validateAndRun E st b ev s0))"
    subgoal for st b ev s0
      using validateAndRun_cacheStep [of s0 E st b ev] by (simp add: cacheStep_def)
    done
  show ?thesis
    using handler_split [of E rq s]
    by (auto simp: handler_authentic v) (simp_all add: cacheStep_def onError_cache)
qed

lemma handler_lift:
  assumes "\<And>ev. validateEnvelope E (body rq) = Inr ev \<Longrightarrow> e_mode ev \<noteq> ''execute''"
  shows "handler E rq (withCache c s) = (fst (handler E rq s), withCache c (snd (handler E rq s)))"
  using assms
  by (simp add: handler_def Let_def split_def readClock_def onError_lift validateAndRun_lift
      split: sum.splits option.splits)

lemma handler_gate:
  assumes "gate E rq b ev p"
  shows "handler E rq s =
     (case (if e_mode ev = ''execute''
            then idempotencyCache s (idempotencyKeyOf (e_action ev) b (e_idempotencyKey ev))
            else None) of
        Some cachedResult \<Rightarrow> (Replied 200 cachedResult, traced s)
      | None \<Rightarrow>
          runAction E (clock E (ticks (io s))) b (uuidv4 E (minted (io s))) (e_action ev)
            (e_mode ev) (idempotencyKeyOf (e_action ev) b (e_idempotencyKey ev)) p (traced s))"
proof -
  from assms have a: "authentic E rq b ev"
    and v: "validateParams E (e_action ev) (e_params ev) = ValidParams p"
    by (simp_all add: gate_def)
  show ?thesis
    using v
    by (simp add: handler_authentic [OF a] validateAndRun_def Let_def traced_def
        createTraceId_def split: option.splits)
qed




lemma addLog_canLog: "canLog E now \<Longrightarrow> fst (addLog E now e l) = None"
  by (auto simp: canLog_def addLog_def split: option.splits)

lemma finish_ok:
  assumes "canLog E (clock E (ticks (io s) + 2))"
  shows "finish E st b tid act md k res ns s =
           (Replied 200 (successBody tid res ns),
            (snd (finish E st b tid act md k res ns s)))"
    and "idempotencyCache (snd (finish E st b tid act md k res ns s)) =
           (if md = ''execute'' then (idempotencyCache s)(k \<mapsto> successBody tid res ns)
            else idempotencyCache s)"
    and "io (snd (finish E st b tid act md k res ns s)) = (io s)\<lparr>ticks := ticks (io s) + 3\<rparr>"
  using assms addLog_canLog [OF assms]
  by (auto simp: finish_def readClock_def Let_def split_def split: option.splits)



lemma runAction_ok:
  assumes "grantFor E act b = Inr g"
    and "dispatch E p tid b g md (io s) = (Inr (res, ns), w')"
    and "canLog E (clock E (ticks w' + 2))"
  shows "fst (runAction E st b tid act md k p s) = Replied 200 (successBody tid res ns)"
    and "idempotencyCache (snd (runAction E st b tid act md k p s)) =
           (if md = ''execute'' then (idempotencyCache s)(k \<mapsto> successBody tid res ns)
            else idempotencyCache s)"
    and "io (snd (runAction E st b tid act md k p s)) = w'\<lparr>ticks := ticks w' + 3\<rparr>"
proof -
  let ?s = "s\<lparr>runs := runs s @ [act], io := w'\<rparr>"
  have r: "runAction E st b tid act md k p s = finish E st b tid act md k res ns ?s"
    using assms(1,2) by (simp add: runAction_def grantFor_def)
  have c: "canLog E (clock E (ticks (io ?s) + 2))"
    using assms(3) by simp
  show "fst (runAction E st b tid act md k p s) = Replied 200 (successBody tid res ns)"
    unfolding r using finish_ok(1) [OF c, of st b tid act md k res ns]
    by (metis fst_conv)
  show "idempotencyCache (snd (runAction E st b tid act md k p s)) =
           (if md = ''execute'' then (idempotencyCache s)(k \<mapsto> successBody tid res ns)
            else idempotencyCache s)"
    unfolding r using finish_ok(2) [OF c, of st b tid act md k res ns] by simp
  show "io (snd (runAction E st b tid act md k p s)) = w'\<lparr>ticks := ticks w' + 3\<rparr>"
    unfolding r using finish_ok(3) [OF c, of st b tid act md k res ns] by simp
qed


lemma push_answered:
  assumes "network E (length (sent w)) (wireRequest E (paveOptions (pushPaveBody g (jobId q))))
             = Answered st hs t"
    and "md \<noteq> ''dry_run''"
  shows "executeJobTreadPushJobToQbo E q b g md w =
           (Inr (parseData E t,
                 [''Job '' @ jobId q @ '' pushed to QuickBooks Online successfully'']),
            w\<lparr>sent := sent w @ [wireRequest E (paveOptions (pushPaveBody g (jobId q)))]\<rparr>)"
proof -
  have m: "maxRetriesOf (paveOptions (pushPaveBody g (jobId q))) = 2"
    by (simp add: maxRetriesOf_def paveOptions_def)
  have "httpRequest E (paveOptions (pushPaveBody g (jobId q))) w =
          (Inr \<lparr>r_status = st, r_headers = hs, r_data = parseData E t\<rparr>,
           w\<lparr>sent := sent w @ replicate (Suc 0) (wireRequest E (paveOptions (pushPaveBody g (jobId q)))),
             slept := slept w @ map (\<lambda>j. 2 ^ (nat 0 + j) * 1000) [0..<0]\<rparr>)"
    unfolding httpRequest_def
    by (rule httpLoop_answered) (use assms(1) m in simp_all)
  then show ?thesis
    using assms(2) by (simp add: executeJobTreadPushJobToQbo_def)
qed


lemma push_dry:
  "executeJobTreadPushJobToQbo E q b g ''dry_run'' w =
     (Inr (JStr (''Dry run: Would push job '' @ jobId q @
                 '' to QuickBooks Online via JobTread API.''),
           [''This is a side-effect action - idempotency is enforced by the server'']), w)"
  by (simp add: executeJobTreadPushJobToQbo_def)




lemma handler_cached:
  assumes "gate E rq b ev p" and "e_mode ev = ''execute''"
    and "idempotencyCache s (idempotencyKeyOf (e_action ev) b (e_idempotencyKey ev)) = Some cached"
  shows "handler E rq s = (Replied 200 cached, traced s)"
  using assms(2,3) by (simp add: handler_gate [OF assms(1)])

lemma handler_invalid_params:
  assumes "authentic E rq b ev"
    and "validateParams E (e_action ev) (e_params ev) = InvalidParams errs"
  shows "fst (handler E rq s) = Replied 422 (errorDetails ''Invalid parameters for action'' errs)"
  using assms(2) by (simp add: handler_authentic [OF assms(1)] validateAndRun_def Let_def)

lemma handler_replay:
  assumes "gate E rq b ev p" and "e_mode ev = ''execute''"
    and "handler E rq s = (Replied 200 cached, s')"
  shows "handler E rq s' = (Replied 200 cached, traced s')"
proof -
  let ?k = "idempotencyKeyOf (e_action ev) b (e_idempotencyKey ev)"
  have "idempotencyCache s' ?k = Some cached"
  proof (cases "idempotencyCache s ?k")
    case (Some c)
    with assms(2,3) show ?thesis
      by (auto simp: handler_gate [OF assms(1)] traced_def)
  next
    case None
    let ?run = "runAction E (clock E (ticks (io s))) b (uuidv4 E (minted (io s))) (e_action ev)
                  (e_mode ev) ?k p (traced s)"
    have r: "?run = (Replied 200 cached, s')"
      using assms(2,3) None by (simp add: handler_gate [OF assms(1)])
    have "idempotencyCache (traced s) = idempotencyCache s"
      by (simp add: traced_def)
    then show ?thesis
      using runAction_cases [of E "clock E (ticks (io s))" b "uuidv4 E (minted (io s))"
              "e_action ev" "e_mode ev" ?k p "traced s"] r assms(2)
      by auto
  qed
  then show ?thesis
    by (rule handler_cached [OF assms(1,2)])
qed


lemma gate_network: "gate (E\<lparr>network := n\<rparr>) rq b ev p = gate E rq b ev p"
  by (simp add: gate_def authentic_def verifyHmacSignature_def getBrandFromGatewayKey_def
      validateParams_def)

lemma push_gate_sample:
  "gate sampleEnv pushRequest DB pushEnvelope (PushParams \<lparr>jobId = ''12345''\<rparr>)"
  by code_simp

lemma push_gate: "gate okEnv pushRequest DB pushEnvelope (PushParams \<lparr>jobId = ''12345''\<rparr>)"
  unfolding okEnv_def gate_network by (rule push_gate_sample)

lemma pushDry_gate_sample:
  "gate sampleEnv pushDryRequest DB pushDryEnvelope (PushParams \<lparr>jobId = ''12345''\<rparr>)"
  by code_simp

lemma pushBad_authentic: "authentic okEnv pushBadRequest DB pushBadEnvelope"
  by code_simp


lemma noBody_rejected:
  "fst (handler sampleEnv noBodyRequest state0) = Replied 400 (errorBody ''Request body is required'')"
  by code_simp

lemma forged_rejected:
  "fst (handler sampleEnv forgedRequest state0) = Replied 401 (errorBody ''Invalid HMAC signature'')"
  by code_simp

lemma sample_canLog:
  "n < 1000 \<Longrightarrow> canLog sampleEnv (clock sampleEnv n)"
  "n < 1000 \<Longrightarrow> canLog okEnv (clock okEnv n)"
proof -
  have r: "retentionDays sampleEnv = Some 60" by (rule sample_retention)
  have r': "retentionDays okEnv = Some 60"
    using r by (simp add: retentionDays_def okEnv_def)
  show "n < 1000 \<Longrightarrow> canLog sampleEnv (clock sampleEnv n)"
    using r by (simp add: canLog_def sampleEnv_def sampleDaysBefore_def Let_def)
  show "n < 1000 \<Longrightarrow> canLog okEnv (clock okEnv n)"
    using r' by (simp add: canLog_def okEnv_def sampleEnv_def sampleDaysBefore_def Let_def)
qed

lemma sample_ids:
  "uuidv4 okEnv 0 = ''trace-0''" "uuidv4 okEnv 1 = ''trace-1''"
  "uuidv4 sampleEnv 0 = ''trace-0''" "uuidv4 sampleEnv 1 = ''trace-1''"
  by code_simp+

lemma push_key:
  "idempotencyKeyOf (e_action pushEnvelope) DB (e_idempotencyKey pushEnvelope)
     = ''jobtread.pushJobToQbo:DB:k1''"
  by (simp add: idempotencyKeyOf_def pushEnvelope_def)

lemma push_grant:
  "grantFor okEnv ''jobtread.pushJobToQbo'' DB = Inr (Some ''grant-db'')"
  "grantFor sampleEnv ''jobtread.pushJobToQbo'' DB = Inr (Some ''grant-db'')"
  by (simp_all add: grantFor_def startsWith_def getGrantKeyForBrand_def okEnv_def sampleEnv_def)

lemma pushed:
  "fst (handler okEnv pushRequest state0) = Replied 200 pushReply"
  "idempotencyCache pushedState ''jobtread.pushJobToQbo:DB:k1'' = Some pushReply"
  "runs pushedState = [''jobtread.pushJobToQbo'']"
  "ticks (io pushedState) = 4" "minted (io pushedState) = 1"
  "length (sent (io pushedState)) = 1" "slept (io pushedState) = []"
proof -
  let ?q = "\<lparr>jobId = ''12345''\<rparr>"
  let ?wire = "wireRequest okEnv (paveOptions (pushPaveBody (Some ''grant-db'') ''12345''))"
  let ?w = "(io (traced state0))\<lparr>sent := sent (io (traced state0)) @ [?wire]\<rparr>"
  let ?run = "runAction okEnv (clock okEnv (ticks (io state0))) DB (uuidv4 okEnv (minted (io state0)))
                ''jobtread.pushJobToQbo'' ''execute'' ''jobtread.pushJobToQbo:DB:k1''
                (PushParams ?q) (traced state0)"
  have h: "handler okEnv pushRequest state0 = ?run"
    using handler_gate [OF push_gate, of state0] push_key
    by (simp add: pushEnvelope_def state0_def)
  have n: "network okEnv (length (sent (io (traced state0)))) ?wire = Answered 200 [] ''{\"ok\":true}''"
    by (simp add: okEnv_def)
  have p: "parseData okEnv ''{\"ok\":true}'' = JObj [(''ok'', JBool True)]"
    by (simp add: parseData_def okEnv_def sampleEnv_def sampleParse_def)
  have d: "dispatch okEnv (PushParams ?q) (uuidv4 okEnv (minted (io state0))) DB (Some ''grant-db'')
             ''execute'' (io (traced state0))
           = (Inr (JObj [(''ok'', JBool True)],
                   [''Job 12345 pushed to QuickBooks Online successfully'']), ?w)"
    using push_answered [of okEnv "io (traced state0)" "Some ''grant-db''" ?q 200 "[]"
            "''{\"ok\":true}''" "''execute''" DB] n p
    by (simp add: dispatch_def)
  have t: "ticks ?w = 1" "minted ?w = 1" "sent ?w = [?wire]" "slept ?w = []"
    by (simp_all add: traced_def state0_def world0_def)
  have c: "canLog okEnv (clock okEnv (ticks ?w + 2))"
    by (rule sample_canLog) (simp add: t)
  have m: "minted (io state0) = 0"
    by (simp add: state0_def world0_def)
  show "fst (handler okEnv pushRequest state0) = Replied 200 pushReply"
    unfolding h using runAction_ok(1) [OF push_grant(1) d c] m
    by (simp add: pushReply_def sample_ids)
  have "idempotencyCache pushedState =
          (idempotencyCache (traced state0))(''jobtread.pushJobToQbo:DB:k1'' \<mapsto> pushReply)"
    unfolding pushedState_def h using runAction_ok(2) [OF push_grant(1) d c] m
    by (simp add: pushReply_def sample_ids)
  then show "idempotencyCache pushedState ''jobtread.pushJobToQbo:DB:k1'' = Some pushReply"
    by simp
  show "runs pushedState = [''jobtread.pushJobToQbo'']"
    unfolding pushedState_def h
    by (simp add: runAction_runs push_grant traced_def state0_def)
  have i: "io pushedState = ?w\<lparr>ticks := ticks ?w + 3\<rparr>"
    unfolding pushedState_def h by (rule runAction_ok(3) [OF push_grant(1) d c])
  show "ticks (io pushedState) = 4" "minted (io pushedState) = 1"
    "length (sent (io pushedState)) = 1" "slept (io pushedState) = []"
    unfolding i by (simp_all add: traced_def state0_def world0_def)
qed

text \<open>
  C1, as the code has it. An execute-mode request that passes authentication, the
  envelope schema and the schema of its action parameters, and whose key has a stored
  response, gets that response verbatim under status 200; the handler only reads the
  clock and mints a trace identifier: the cache, the log, the executors invoked and the
  requests sent downstream stay as they are. So a request answered with 200 is answered
  with the same response when it is replayed. The parameters are validated before the
  cache is consulted: with invalid parameters the reply is 422, whatever the cache holds.
\<close>

theorem cached_response_returned_verbatim:
  "(gate E rq b ev p \<and> e_mode ev = ''execute''
      \<and> idempotencyCache s (idempotencyKeyOf (e_action ev) b (e_idempotencyKey ev)) = Some cached
    \<longrightarrow> handler E rq s = (Replied 200 cached, traced s)
        \<and> idempotencyCache (traced s) = idempotencyCache s \<and> logs (traced s) = logs s
        \<and> runs (traced s) = runs s \<and> sent (io (traced s)) = sent (io s)
        \<and> slept (io (traced s)) = slept (io s))
   \<and> (gate E rq b ev p \<and> e_mode ev = ''execute'' \<and> handler E rq s = (Replied 200 cached, s')
    \<longrightarrow> handler E rq s' = (Replied 200 cached, traced s'))
   \<and> (authentic E rq b ev
      \<and> validateParams E (e_action ev) (e_params ev) = InvalidParams errs
    \<longrightarrow> fst (handler E rq s) = Replied 422 (errorDetails ''Invalid parameters for action'' errs))"
  using handler_cached [of E rq b ev p s cached] handler_replay [of E rq b ev p s cached s']
    handler_invalid_params [of E rq b ev errs s]
  by (simp add: traced_def)

lemma pushBad_params:
  "validateParams okEnv (e_action pushBadEnvelope) (e_params pushBadEnvelope) =
     InvalidParams [violation ''jobId must be a string'']"
  by code_simp

lemma pushBad_key:
  "idempotencyKeyOf (e_action pushBadEnvelope) DB (e_idempotencyKey pushBadEnvelope)
     = ''jobtread.pushJobToQbo:DB:k1''"
  by (simp add: idempotencyKeyOf_def pushEnvelope_def pushBadEnvelope_def)

theorem cached_response_returned_verbatim_witness:
  "gate okEnv pushRequest DB pushEnvelope (PushParams \<lparr>jobId = ''12345''\<rparr>)
   \<and> e_mode pushEnvelope = ''execute''
   \<and> fst (handler okEnv pushRequest state0) = Replied 200 pushReply
   \<and> idempotencyCache pushedState
        (idempotencyKeyOf (e_action pushEnvelope) DB (e_idempotencyKey pushEnvelope)) = Some pushReply
   \<and> handler okEnv pushRequest pushedState = (Replied 200 pushReply, traced pushedState)
   \<and> runs (traced pushedState) = [''jobtread.pushJobToQbo'']
   \<and> length (sent (io (traced pushedState))) = 1
   \<and> authentic okEnv pushBadRequest DB pushBadEnvelope
   \<and> fst (handler okEnv pushBadRequest pushedState) =
        Replied 422 (errorDetails ''Invalid parameters for action''
                       [violation ''jobId must be a string''])"
proof -
  have m: "e_mode pushEnvelope = ''execute''"
    by (simp add: pushEnvelope_def)
  show ?thesis
    using cached_response_returned_verbatim
            [where E = okEnv and rq = pushRequest and b = DB and ev = pushEnvelope
               and p = "PushParams \<lparr>jobId = ''12345''\<rparr>" and s = pushedState
               and cached = pushReply]
      cached_response_returned_verbatim
            [where E = okEnv and rq = pushBadRequest and b = DB and ev = pushBadEnvelope
               and s = pushedState and errs = "[violation ''jobId must be a string'']"]
      push_gate m push_key pushed pushBad_authentic pushBad_params
    by simp
qed

text \<open>
  C1 as stated fails: the parameters are validated again before the cache is read. With
  a response stored under (\<open>jobtread.pushJobToQbo\<close>, DB, \<open>k1\<close>), an execute-mode request
  with that key and parameters that lack the job is answered 422, not with the stored
  response.
\<close>

theorem cached_key_invalid_params_counterexample:
  "idempotencyCache pushedState
     (idempotencyKeyOf (e_action pushBadEnvelope) DB (e_idempotencyKey pushBadEnvelope)) = Some pushReply
   \<and> authentic okEnv pushBadRequest DB pushBadEnvelope
   \<and> e_mode pushBadEnvelope = ''execute''
   \<and> fst (handler okEnv pushBadRequest pushedState) =
        Replied 422 (errorDetails ''Invalid parameters for action''
                       [violation ''jobId must be a string''])
   \<and> fst (handler okEnv pushBadRequest pushedState) \<noteq> Replied 200 pushReply"
  using handler_invalid_params [OF pushBad_authentic pushBad_params, of pushedState]
    pushBad_authentic pushBad_key pushed(2)
  by (simp add: pushBadEnvelope_def pushEnvelope_def)

text \<open>
  C4, as the code has it. With a cache that holds only responses with a trace identifier
  (as the empty cache does, and as every request leaves it), a reply of the handler is
  either a 200 or a 500 that carries a trace identifier, or a 400, 401 or 422 rejection
  that carries none. When the failure comes before a trace identifier is assigned, as
  with a missing \<open>HMAC_SECRET\<close>, the catch block mints one for its 500 reply.
\<close>

theorem reply_carries_trace_unless_rejected:
  assumes "cacheTraced s"
  shows "replyShape (fst (handler E rq s)) \<and> cacheTraced (snd (handler E rq s))
     \<and> (orEmpty (rawBody rq) \<noteq> [] \<and> orEmpty (x_gateway_key rq) \<noteq> []
          \<and> orEmpty (x_signature rq) \<noteq> [] \<and> orEmpty (HMAC_SECRET E) = []
        \<longrightarrow> fst (handler E rq s) =
              Replied 500 (failureBody (uuidv4 E (minted (io s))) ''HMAC_SECRET not configured''))"
proof -
  have sh: "replyShape (fst (handler E rq s))"
    by (rule handler_shape [OF assms])
  have "cacheTraced (snd (handler E rq s))"
    using handler_cacheStep [of s E rq] sh assms
    by (auto simp: cacheStep_def cacheTraced_def split: if_splits)
  moreover have "orEmpty (rawBody rq) \<noteq> [] \<and> orEmpty (x_gateway_key rq) \<noteq> []
          \<and> orEmpty (x_signature rq) \<noteq> [] \<and> orEmpty (HMAC_SECRET E) = []
        \<longrightarrow> fst (handler E rq s) =
              Replied 500 (failureBody (uuidv4 E (minted (io s))) ''HMAC_SECRET not configured'')"
    by (simp add: handler_def Let_def split_def readClock_def onError_def createTraceId_def)
  ultimately show ?thesis using sh by simp
qed

theorem reply_carries_trace_unless_rejected_witness:
  "cacheTraced state0 \<and> cacheTraced pushedState
   \<and> replyShape (fst (handler okEnv pushRequest pushedState))
   \<and> fst (handler okEnv pushRequest pushedState) = Replied 200 pushReply
   \<and> hasTrace pushReply"
proof -
  have c0: "cacheTraced state0"
    by (simp add: cacheTraced_def state0_def)
  have c1: "cacheTraced pushedState"
    using reply_carries_trace_unless_rejected [OF c0, of okEnv pushRequest]
    by (simp add: pushedState_def)
  have m: "e_mode pushEnvelope = ''execute''"
    by (simp add: pushEnvelope_def)
  have r: "fst (handler okEnv pushRequest pushedState) = Replied 200 pushReply"
    using handler_cached [OF push_gate m, of pushedState pushReply] pushed(2) push_key
    by simp
  show ?thesis
    using c0 c1 r reply_carries_trace_unless_rejected [OF c1, of okEnv pushRequest]
    by simp
qed

text \<open>
  C4 as stated fails: a request without a body is answered 400, and a request with the
  signature of another body 401, each with a body that holds \<open>ok\<close> and \<open>error\<close> only and
  no trace identifier.
\<close>

theorem rejection_without_trace_counterexample:
  "fst (handler sampleEnv noBodyRequest state0) = Replied 400 (errorBody ''Request body is required'')
   \<and> \<not> hasTrace (errorBody ''Request body is required'')
   \<and> fst (handler sampleEnv forgedRequest state0) = Replied 401 (errorBody ''Invalid HMAC signature'')
   \<and> \<not> hasTrace (errorBody ''Invalid HMAC signature'')"
  using noBody_rejected forged_rejected by (simp add: errorBody_def)


lemma handler_runs_again:
  assumes "gate E rq b ev p" and "grantFor E (e_action ev) b = Inr g"
    and "e_mode ev = ''execute'' \<longrightarrow>
           idempotencyCache s (idempotencyKeyOf (e_action ev) b (e_idempotencyKey ev)) = None"
  shows "runs (snd (handler E rq s)) = runs s @ [e_action ev]"
proof -
  have "handler E rq s =
      runAction E (clock E (ticks (io s))) b (uuidv4 E (minted (io s))) (e_action ev)
        (e_mode ev) (idempotencyKeyOf (e_action ev) b (e_idempotencyKey ev)) p (traced s)"
    using assms(3) by (auto simp: handler_gate [OF assms(1)])
  then show ?thesis
    using assms(2) by (simp add: runAction_runs traced_def)
qed

lemma handler_cache_other_mode:
  assumes "\<And>ev. validateEnvelope E (body rq) = Inr ev \<Longrightarrow> e_mode ev \<noteq> ''execute''"
  shows "idempotencyCache (snd (handler E rq s)) = idempotencyCache s"
proof -
  have "withCache (idempotencyCache s) s = s"
    by (simp add: withCache_def)
  with handler_lift [OF assms, where c = "idempotencyCache s" and s = s]
  have "snd (handler E rq s) = withCache (idempotencyCache s) (snd (handler E rq s))"
    by (metis snd_conv)
  then show ?thesis
    by (metis withCache_simps(4))
qed





text \<open>
  C6. For a request whose envelope is valid with the mode \<open>dry_run\<close>, the handler leaves
  the cache as it was, and computes the same reply and the same state whatever the cache
  holds: it neither reads nor writes it. When the request passes steps 1 to 6 and the
  grant key of its brand is there, its executor is invoked, also when an execute-mode
  request has stored a response under the same key.
\<close>

theorem dry_run_ignores_cache:
  assumes "validateEnvelope E (body rq) = Inr ev" and "e_mode ev = ''dry_run''"
  shows "idempotencyCache (snd (handler E rq s)) = idempotencyCache s
     \<and> handler E rq (withCache c s) = (fst (handler E rq s), withCache c (snd (handler E rq s)))
     \<and> (gate E rq b ev p \<and> grantFor E (e_action ev) b = Inr g
        \<longrightarrow> runs (snd (handler E rq s)) = runs s @ [e_action ev])"
proof -
  have d: "\<And>ev'. validateEnvelope E (body rq) = Inr ev' \<Longrightarrow> e_mode ev' \<noteq> ''execute''"
    using assms by auto
  have l: "\<And>c. handler E rq (withCache c s) =
             (fst (handler E rq s), withCache c (snd (handler E rq s)))"
    by (rule handler_lift [OF d])
  have same: "idempotencyCache (snd (handler E rq s)) = idempotencyCache s"
    by (rule handler_cache_other_mode [OF d])
  have "gate E rq b ev p \<and> grantFor E (e_action ev) b = Inr g
        \<longrightarrow> runs (snd (handler E rq s)) = runs s @ [e_action ev]"
    using handler_runs_again [of E rq b ev p g s] assms(2) by simp
  with same l show ?thesis by simp
qed

lemma pushDry_gate: "gate okEnv pushDryRequest DB pushDryEnvelope (PushParams \<lparr>jobId = ''12345''\<rparr>)"
  unfolding okEnv_def gate_network by (rule pushDry_gate_sample)

lemma pushDry_reply:
  "fst (handler okEnv pushDryRequest pushedState) =
     Replied 200 (successBody ''trace-1''
       (JStr ''Dry run: Would push job 12345 to QuickBooks Online via JobTread API.'')
       [''This is a side-effect action - idempotency is enforced by the server''])"
proof -
  let ?q = "\<lparr>jobId = ''12345''\<rparr>"
  let ?run = "runAction okEnv (clock okEnv (ticks (io pushedState))) DB
                (uuidv4 okEnv (minted (io pushedState)))
                ''jobtread.pushJobToQbo'' ''dry_run'' ''jobtread.pushJobToQbo:DB:k1''
                (PushParams ?q) (traced pushedState)"
  have h: "handler okEnv pushDryRequest pushedState = ?run"
    using handler_gate [OF pushDry_gate, of pushedState]
    by (simp add: pushDryEnvelope_def pushEnvelope_def idempotencyKeyOf_def)
  have d: "dispatch okEnv (PushParams ?q) (uuidv4 okEnv (minted (io pushedState))) DB
             (Some ''grant-db'') ''dry_run'' (io (traced pushedState))
           = (Inr (JStr ''Dry run: Would push job 12345 to QuickBooks Online via JobTread API.'',
                   [''This is a side-effect action - idempotency is enforced by the server'']),
              io (traced pushedState))"
    by (simp add: dispatch_def push_dry)
  have c: "canLog okEnv (clock okEnv (ticks (io (traced pushedState)) + 2))"
    by (rule sample_canLog) (simp add: traced_def pushed)
  have u: "uuidv4 okEnv (Suc 0) = ''trace-1''"
    by code_simp
  show ?thesis
    unfolding h using runAction_ok(1) [OF push_grant(1) d c]
    by (simp add: pushed u)
qed

theorem dry_run_ignores_cache_witness:
  "validateEnvelope okEnv (body pushDryRequest) = Inr pushDryEnvelope
   \<and> e_mode pushDryEnvelope = ''dry_run''
   \<and> idempotencyCache pushedState
        (idempotencyKeyOf (e_action pushDryEnvelope) DB (e_idempotencyKey pushDryEnvelope)) = Some pushReply
   \<and> idempotencyCache (snd (handler okEnv pushDryRequest pushedState)) = idempotencyCache pushedState
   \<and> fst (handler okEnv pushDryRequest pushedState) =
        Replied 200 (successBody ''trace-1''
          (JStr ''Dry run: Would push job 12345 to QuickBooks Online via JobTread API.'')
          [''This is a side-effect action - idempotency is enforced by the server''])
   \<and> fst (handler okEnv pushDryRequest (withCache Map.empty pushedState)) =
        fst (handler okEnv pushDryRequest pushedState)
   \<and> runs (snd (handler okEnv pushDryRequest pushedState)) =
        [''jobtread.pushJobToQbo'', ''jobtread.pushJobToQbo'']"
proof -
  have v: "validateEnvelope okEnv (body pushDryRequest) = Inr pushDryEnvelope"
    using pushDry_gate by (simp add: gate_def authentic_def)
  have m: "e_mode pushDryEnvelope = ''dry_run''" "e_action pushDryEnvelope = ''jobtread.pushJobToQbo''"
    by (simp_all add: pushDryEnvelope_def pushEnvelope_def)
  have k: "idempotencyKeyOf (e_action pushDryEnvelope) DB (e_idempotencyKey pushDryEnvelope)
             = ''jobtread.pushJobToQbo:DB:k1''"
    by (simp add: pushDryEnvelope_def pushEnvelope_def idempotencyKeyOf_def)
  show ?thesis
    using dry_run_ignores_cache [OF v m(1), where s = pushedState and c = Map.empty and b = DB
        and p = "PushParams \<lparr>jobId = ''12345''\<rparr>" and g = "Some ''grant-db''"]
      v m k pushed pushDry_reply pushDry_gate push_grant(1)
    by simp
qed











end
